theory Spec2Isabelle
  imports Complex_Main "HOL-Library.AList"
begin

section \<open>Data model of the trading worker (api-worker/src/index.ts)\<close>

text \<open>
  JavaScript numbers that carry prices, quantities and dollar amounts are modelled as
  exact reals (\<open>real\<close>); millisecond time stamps are integers (\<open>int\<close>). The values
  \<open>NaN\<close> and \<open>Infinity\<close> are outside the model. The tick is modelled in exact
  arithmetic; the rounding of IEEE doubles is written out where it decides a property,
  for the rounding of a quantity to the lot size (\<open>fl\<close>, \<open>quantizeD\<close> below).
  An optional field of a TypeScript type (\<open>stopLoss?: number\<close>) is an \<open>option\<close>;
  the test \<open>typeof x === 'number'\<close> is the test for \<open>Some\<close>.
\<close>

datatype side = LONG | SHORT

record OpenTrade =
  ot_symbol :: string
  ot_side :: side
  ot_qty :: real
  ot_entryPrice :: real
  ot_notionalEntry :: real
  ot_openedAt :: int
  ot_provider :: "string option"
  ot_model :: "string option"
  ot_stopLoss :: "real option"
  ot_takeProfit :: "real option"
  ot_minHoldMs :: "int option"
  ot_thesis :: "string option"

record ClosedTrade =
  ct_symbol :: string
  ct_side :: side
  ct_qty :: real
  ct_entryPrice :: real
  ct_exitPrice :: real
  ct_notionalEntry :: real
  ct_notionalExit :: real
  ct_openedAt :: int
  ct_closedAt :: int
  ct_holdingMs :: int
  ct_pnlUsd :: real
  ct_provider :: "string option"
  ct_model :: "string option"
  ct_thesis :: "string option"

datatype run_status = running | stopped

datatype margin_mode = cross | isolated

record VibeConfig =
  status :: run_status
  universe :: "string list"
  maxRiskPerTradeUsd :: real
  maxDailyLossUsd :: real
  maxExposureUsd :: real
  leverageCap :: real
  marginMode :: margin_mode
  model :: string
  maxLossPerTradeUsd :: "real option"

definition DEFAULT_VIBE_CONFIG :: VibeConfig where
  "DEFAULT_VIBE_CONFIG =
     \<lparr> status = running,
       universe = [''BTCUSDT'', ''ETHUSDT'', ''BNBUSDT'', ''XRPUSDT'', ''DOGEUSDT'', ''SOLUSDT'',
                   ''ASTERUSDT'', ''CAKEUSDT'', ''ZORAUSDT'', ''PUMPUSDT'', ''ZECUSDT''],
       maxRiskPerTradeUsd = 1500,
       maxDailyLossUsd = 2000,
       maxExposureUsd = 10000,
       leverageCap = 5,
       marginMode = cross,
       model = ''qwen2.5-32b-instruct'',
       maxLossPerTradeUsd = Some 200 \<rparr>"

subsection \<open>Exit rules of an open position (vibeTick, lines 641--665)\<close>

text \<open>
  The source keeps a flag \<open>shouldClose\<close> and a text \<open>reason\<close>, set by three checks
  in this order: stop-loss, take-profit (only when the minimum hold has elapsed),
  hard dollar loss. The reason texts are the constructors of \<open>reason\<close>; the third
  carries the number the source prints, \<open>-|maxLossPerTradeUsd|\<close>.
\<close>

datatype reason = No_reason | Stop_loss_hit | Take_profit_hit | Max_loss_hit real

definition minHoldOk :: "OpenTrade \<Rightarrow> int \<Rightarrow> bool" where
  "minHoldOk t now =
     (case ot_minHoldMs t of Some m \<Rightarrow> now - ot_openedAt t \<ge> m | None \<Rightarrow> True)"

definition stopLossCheck :: "OpenTrade \<Rightarrow> real \<Rightarrow> bool \<times> reason" where
  "stopLossCheck t price =
     (case ot_stopLoss t of
        Some sl \<Rightarrow>
          if (ot_side t = LONG \<and> price \<le> sl) \<or> (ot_side t = SHORT \<and> price \<ge> sl)
          then (True, Stop_loss_hit) else (False, No_reason)
      | None \<Rightarrow> (False, No_reason))"

definition takeProfitCheck :: "OpenTrade \<Rightarrow> int \<Rightarrow> real \<Rightarrow> bool \<times> reason \<Rightarrow> bool \<times> reason" where
  "takeProfitCheck t now price sc =
     (if \<not> fst sc \<and> minHoldOk t now then
        (case ot_takeProfit t of
           Some tp \<Rightarrow>
             if (ot_side t = LONG \<and> price \<ge> tp) \<or> (ot_side t = SHORT \<and> price \<le> tp)
             then (True, Take_profit_hit) else sc
         | None \<Rightarrow> sc)
      else sc)"

definition pnlAt :: "OpenTrade \<Rightarrow> real \<Rightarrow> real" where
  "pnlAt t price =
     (if ot_side t = LONG then (price - ot_entryPrice t) * ot_qty t
      else (ot_entryPrice t - price) * ot_qty t)"

definition maxLossCheck :: "VibeConfig \<Rightarrow> OpenTrade \<Rightarrow> real \<Rightarrow> bool \<times> reason \<Rightarrow> bool \<times> reason" where
  "maxLossCheck cfg t price sc =
     (case maxLossPerTradeUsd cfg of
        Some m \<Rightarrow>
          if \<not> fst sc \<and> m > 0 then
            (if pnlAt t price \<le> - \<bar>m\<bar> then (True, Max_loss_hit (- \<bar>m\<bar>)) else sc)
          else sc
      | None \<Rightarrow> sc)"

definition exitCheck :: "VibeConfig \<Rightarrow> OpenTrade \<Rightarrow> int \<Rightarrow> real \<Rightarrow> bool \<times> reason" where
  "exitCheck cfg t now price =
     maxLossCheck cfg t price (takeProfitCheck t now price (stopLossCheck t price))"

subsection \<open>Order sizing (vibeTick, lines 771--773)\<close>

text \<open>
  \<open>targetRisk = Math.max(0, Math.floor((equityUsd || availableBalance) * 0.50))\<close> and
  \<open>sizeUsd = Math.min(cfg.maxRiskPerTradeUsd, targetRisk)\<close>. The operator \<open>||\<close>
  takes the available balance when the equity is 0.
\<close>

definition targetFraction :: real where
  "targetFraction = 0.50"

definition targetRisk :: "real \<Rightarrow> real \<Rightarrow> real" where
  "targetRisk equityUsd availableBalance =
     max 0 (of_int \<lfloor>(if equityUsd \<noteq> 0 then equityUsd else availableBalance) * targetFraction\<rfloor>)"

definition sizeUsd :: "VibeConfig \<Rightarrow> real \<Rightarrow> real \<Rightarrow> real" where
  "sizeUsd cfg equityUsd availableBalance =
     min (maxRiskPerTradeUsd cfg) (targetRisk equityUsd availableBalance)"

subsection \<open>Lot-size rules (stepSizeForSymbol, lines 1980--1989; quantity rounding, lines 699--700 and 939--950)\<close>

text \<open>
  The exchange's trading rules are a list of symbols, each with a list of filters. The
  numeric fields arrive as non-empty decimal strings, which \<open>Number\<close> converts; a field
  that is absent is \<open>None\<close>. \<open>Number(lot?.stepSize || 0)\<close> is then the field's value or 0,
  and \<open>notional?.notional || notional?.minNotional || 0\<close> is the first field present.
  An \<open>info\<close> of \<open>None\<close> is the \<open>null\<close> that a failed request yields.
\<close>

record exch_filter =
  filterType :: string
  stepSize :: "real option"
  notional :: "real option"
  minNotional :: "real option"

record exch_symbol =
  es_symbol :: string
  es_filters :: "exch_filter list"

definition stepSizeForSymbol :: "exch_symbol list option \<Rightarrow> string \<Rightarrow> real \<times> real option" where
  "stepSizeForSymbol info symb =
     (let s = (case info of None \<Rightarrow> None | Some symbols \<Rightarrow> find (\<lambda>x. es_symbol x = symb) symbols);
          lot = (case s of None \<Rightarrow> None
                 | Some x \<Rightarrow> find (\<lambda>f. filterType f = ''LOT_SIZE'') (es_filters x));
          ntl = (case s of None \<Rightarrow> None
                 | Some x \<Rightarrow> find (\<lambda>f. filterType f = ''MIN_NOTIONAL'' \<or> filterType f = ''NOTIONAL'')
                              (es_filters x));
          step = (case lot of None \<Rightarrow> 0
                  | Some f \<Rightarrow> (case stepSize f of None \<Rightarrow> 0 | Some v \<Rightarrow> v));
          mn = (case ntl of None \<Rightarrow> 0
                | Some f \<Rightarrow> (case notional f of Some v \<Rightarrow> v
                             | None \<Rightarrow> (case minNotional f of Some v \<Rightarrow> v | None \<Rightarrow> 0)))
      in (if step > 0 then step else 0.0001, if mn > 0 then Some mn else None))"

text \<open>
  \<open>steps = Math.max(1, Math.floor(qty / step)); qty = steps * step\<close>: the rounding of a
  quantity to the lot size, the same two lines in the close path and in the open path.
\<close>

definition quantize :: "real \<Rightarrow> real \<Rightarrow> real" where
  "quantize step q = of_int (max 1 \<lfloor>q / step\<rfloor>) * step"

subsection \<open>The rounding of doubles, written out for the quantity rounding\<close>





subsection \<open>The closed-trade list\<close>

text \<open>
  \<open>appendClosedTrade\<close> (lines 464--470) reads the list stored under
  \<open>/vibe_trades.json\<close>, pushes the trade, and when the list is longer than 2000
  removes \<open>length - 2000\<close> entries from the front (\<open>splice(0, n)\<close>) before writing
  it back. The function below is that read-modify-write on the stored list.
\<close>

definition appendClosedTrade :: "ClosedTrade list \<Rightarrow> ClosedTrade \<Rightarrow> ClosedTrade list" where
  "appendClosedTrade list trade =
     (let l = list @ [trade]
      in if length l > 2000 then drop (length l - 2000) l else l)"

subsection \<open>Environment, persisted state, external replies\<close>

record Env =
  ASTER_API_BASE :: "string option"
  ASTER_API_KEY :: "string option"
  ASTER_API_SECRET :: "string option"
  ADMIN_KEY :: "string option"
  QWEN_API_KEY :: "string option"

definition truthy :: "string option \<Rightarrow> bool" where
  "truthy v = (case v of None \<Rightarrow> False | Some s \<Rightarrow> s \<noteq> [])"

definition isSpace :: "char \<Rightarrow> bool" where
  "isSpace c = (c \<in> set [CHR '' '', CHR 0x09, CHR 0x0A, CHR 0x0B, CHR 0x0C, CHR 0x0D])"

definition trim :: "string \<Rightarrow> string" where
  "trim s = rev (dropWhile isSpace (rev (dropWhile isSpace s)))"

definition stripSlashes :: "string \<Rightarrow> string" where
  "stripSlashes s = rev (dropWhile (\<lambda>c. c = CHR ''/'') (rev s))"

definition orEmpty :: "string option \<Rightarrow> string" where
  "orEmpty v = (case v of None \<Rightarrow> [] | Some s \<Rightarrow> s)"

definition closeCreds :: "Env \<Rightarrow> bool" where
  "closeCreds env =
     (trim (orEmpty (ASTER_API_BASE env)) \<noteq> [] \<and> truthy (ASTER_API_KEY env)
      \<and> truthy (ASTER_API_SECRET env))"

definition fapiCreds :: "Env \<Rightarrow> bool" where
  "fapiCreds env =
     (stripSlashes (trim (orEmpty (ASTER_API_BASE env))) \<noteq> [] \<and> truthy (ASTER_API_KEY env)
      \<and> truthy (ASTER_API_SECRET env))"

text \<open>
  The outcome of a request to the exchange made through \<open>asterFapiGetPublicJson\<close>
  (lines 188--194) or \<open>asterFapiGetJson\<close>: \<open>Throws\<close> when \<open>fetch\<close> throws, \<open>Null\<close>
  when the helper returns \<open>null\<close> (the response is not ok, or its body is not JSON),
  \<open>Reply v\<close> for the value read from the JSON body. Without a base URL the helper
  returns \<open>null\<close> and sends nothing.
\<close>

datatype 'a reply = Throws | Null | Reply 'a

definition asterFapiGetPublicJson :: "Env \<Rightarrow> 'a reply \<Rightarrow> 'a reply" where
  "asterFapiGetPublicJson env r =
     (if stripSlashes (trim (orEmpty (ASTER_API_BASE env))) = [] then Null else r)"

text \<open>
  The persisted key-value store, one field per key, and the trace \<open>fx\<close> of the calls
  made to the exchange that change or poll its state. The open-position map is the
  list of its entries in the order of \<open>Object.keys\<close>. The stamp \<open>at\<close> that
  \<open>appendLog\<close> adds to a log entry is left out: no property below reads it. Reads
  and writes of the store succeed, except at the places that \<open>fault_point\<close> names
  below: the writes of the main \<open>try\<close> block that are not inside an inner \<open>try\<close>, the
  writes of its \<open>catch\<close>, and the sampling step of its \<open>finally\<close>.
\<close>

datatype action = A_LONG | A_SHORT | A_FLAT

datatype order_side = BUY | SELL

text \<open>
  The message of an exception, named after what threw it: the two messages that
  \<open>callLLMDecider\<close> builds itself (\<open>LLM_API_KEY missing\<close> and
  \<open>llm_http_\<close> followed by the status), and the runtime's messages for a \<open>fetch\<close>
  that fails, for a response body that is not JSON and for a store write that fails.
\<close>

datatype failure = LLM_API_KEY_missing | Llm_http int | Fetch_error | Json_error | Kv_error

datatype effect =
    FetchPositionRisk string
  | PostOrder string order_side real bool
  | Sleep nat

datatype log_entry =
    Log_run_status run_status
  | Log_vibe_error_llm failure
  | Log_vibe_error failure
  | Log_vibe_prompt "string option" "string option"
  | Log_vibe_llm_response action "string option"
  | Log_vibe_order int bool string order_side real
  | Log_vibe_status real real string
  | Log_vibe_decision action "string option" real
  | Log_vibe_order_error failure

record VibeRuntime =
  lastTickAt :: "int option"
  lastError :: "failure option"
  lastProvider :: "string option"
  lastModel :: "string option"
  lastOrderAt :: "int option"
  lastSignal :: "action option"

record EquitySample =
  eq_at :: int
  eq_equityUsd :: real

record last_status =
  ls_at :: int
  ls_equityUsd :: real
  ls_hashes :: "string list"

datatype event =
    Ev_status int real real string
  | Ev_decision int action "string option" real

record store =
  kv_config :: "VibeConfig option"
  kv_runtime :: "VibeRuntime option"
  kv_logs :: "log_entry list"
  kv_open_trades :: "(string \<times> OpenTrade) list"
  kv_trades :: "ClosedTrade list"
  kv_equity :: "EquitySample list"
  kv_equity_day :: "int \<Rightarrow> EquitySample list"
  kv_last_status :: "last_status option"
  kv_events :: "event list"
  kv_initial_equity :: "EquitySample option"
  fx :: "effect list"

definition appendLog :: "store \<Rightarrow> log_entry \<Rightarrow> store" where
  "appendLog st entry =
     (let logs = kv_logs st @ [entry]
      in st\<lparr>kv_logs := (if length logs > 500 then drop (length logs - 500) logs else logs)\<rparr>)"

text \<open>Replies of the exchange, as the calls of the close path read them.\<close>

datatype pos_reply = PosThrows | PosNone | PosAmt real

record order_body =
  avgPrice :: "real option"
  price :: "real option"

datatype order_reply = OrderThrows | OrderResp bool int order_body

text \<open>
  A JSON value as \<open>JSON.parse\<close> and \<open>r.json()\<close> yield it; an object is the list of its
  members. \<open>jfield v k\<close> is the property read \<open>v?.k\<close>, \<open>None\<close> for \<open>undefined\<close>.
\<close>

datatype json =
    JNull | JBool bool | JNum real | JStr string | JArr "json list" | JObj "(string \<times> json) list"

definition jfield :: "json \<Rightarrow> string \<Rightarrow> json option" where
  "jfield v k = (case v of JObj kvs \<Rightarrow> map_of kvs k | _ \<Rightarrow> None)"

definition jfirst :: "json \<Rightarrow> json option" where
  "jfirst v = (case v of JArr (c # cs) \<Rightarrow> Some c | JObj kvs \<Rightarrow> map_of kvs ''0'' | _ \<Rightarrow> None)"

definition jtruthy :: "json \<Rightarrow> bool" where
  "jtruthy v =
     (case v of JNull \<Rightarrow> False | JBool b \<Rightarrow> b | JNum x \<Rightarrow> x \<noteq> 0 | JStr t \<Rightarrow> t \<noteq> []
      | JArr xs \<Rightarrow> True | JObj kvs \<Rightarrow> True)"

text \<open>
  The reply of the HTTP request to the oracle: \<open>fetch\<close> throws, or there is a response
  with \<open>r.ok\<close>, \<open>r.status\<close> and the outcome of \<open>r.json()\<close> (\<open>None\<close> when it throws).
  \<open>JSON.parse\<close> is the runtime's, a parameter here: \<open>None\<close> is its SyntaxError.
\<close>

datatype http_reply = FetchThrows | Http bool int "json option"

record acct =
  availableBalance :: "real option"
  totalWalletBalance :: "real option"
  totalMarginBalance :: "real option"
  totalUnrealizedProfit :: "real option"

record status_build =
  sb_summary :: string
  sb_unrealized :: real
  sb_hash :: string
  sb_now :: int

datatype fault_point =
    F_log_llm_error | F_log_prompt | F_log_llm_response | F_log_decision | F_put_events
  | F_log_order_error | F_put_runtime | F_catch_log | F_catch_runtime
  | F_sample_rolling | F_sample_day

text \<open>
  What the outside gives one tick: the replies of the exchange and of the oracle, the
  readings of the clock, the summary text with its SHA-256 hash (the text is
  presentational and the hash is the runtime's; \<open>None\<close> when building it threw), and
  the store operations that fail (\<open>w_fault\<close>).
\<close>

record world =
  w_acct :: "acct reply"
  w_now_init :: int
  w_now_enforce :: "string \<Rightarrow> int"
  w_ticker :: "string \<Rightarrow> real reply"
  w_info_close :: "string \<Rightarrow> exch_symbol list reply"
  w_pos :: "string \<Rightarrow> nat \<Rightarrow> pos_reply"
  w_close_order :: "string \<Rightarrow> nat \<Rightarrow> order_reply"
  w_oracle :: http_reply
  w_JSON_parse :: "json \<Rightarrow> json option"
  w_status :: "status_build option"
  w_now_decision :: int
  w_now_order :: int
  w_order_ticker :: "real reply"
  w_info_open :: "exch_symbol list reply"
  w_open_order :: order_reply
  w_now_runtime :: int
  w_now_sample :: int
  w_fault :: "fault_point \<Rightarrow> bool"

text \<open>
  \<open>asterFapiSignedPost\<close> (lines 230--249): without the three credentials it answers
  status 400 itself and sends nothing; otherwise the order goes to the exchange, and
  the reply (or the exception of \<open>fetch\<close>) is the exchange's.
\<close>

definition asterFapiSignedPost ::
  "Env \<Rightarrow> order_reply \<Rightarrow> string \<Rightarrow> order_side \<Rightarrow> real \<Rightarrow> bool \<Rightarrow> store \<Rightarrow> order_reply \<times> store" where
  "asterFapiSignedPost env r symb sd qty reduceOnly st =
     (if \<not> fapiCreds env then (OrderResp False 400 \<lparr>avgPrice = None, price = None\<rparr>, st)
      else (r, st\<lparr>fx := fx st @ [PostOrder symb sd qty reduceOnly]\<rparr>))"

text \<open>
  \<open>Number(resBody?.avgPrice || resBody?.price || price) || price\<close>: the first field
  present, else the ticker price; a value of 0 is replaced by the ticker price.
\<close>

definition fillPrice :: "order_body \<Rightarrow> real \<Rightarrow> real" where
  "fillPrice body p =
     (let v = (case avgPrice body of Some a \<Rightarrow> a
               | None \<Rightarrow> (case price body of Some b \<Rightarrow> b | None \<Rightarrow> p))
      in if v \<noteq> 0 then v else p)"

record close_acc =
  attempts :: nat
  totalQtyClosed :: real
  sumNotionalExit :: real
  lastExitPrice :: real

text \<open>
  The polling loop \<open>while (attempts < 8)\<close> of lines 692--714. \<open>closeAttempt\<close> is one
  turn of it: \<open>Break\<close> leaves the loop, by \<open>break\<close> or (flag \<open>True\<close>) by an exception,
  which then leaves the whole enforcement pass (caught at line 746); \<open>Continue\<close> goes
  on after the delay of 500 ms.
\<close>

datatype loop_step = Break bool close_acc store | Continue close_acc store

definition closeAttempt ::
  "Env \<Rightarrow> world \<Rightarrow> string \<Rightarrow> real \<Rightarrow> real \<Rightarrow> close_acc \<Rightarrow> store \<Rightarrow> loop_step" where
  "closeAttempt env w symb tickPrice step acc st =
     (let acc1 = acc\<lparr>attempts := attempts acc + 1\<rparr>;
          p = (if closeCreds env then w_pos w symb (attempts acc) else PosNone);
          st1 = (if closeCreds env then st\<lparr>fx := fx st @ [FetchPositionRisk symb]\<rparr> else st)
      in case p of
           PosThrows \<Rightarrow> Break True acc1 st1
         | PosNone \<Rightarrow> Break False acc1 st1
         | PosAmt amt \<Rightarrow>
             if \<bar>amt\<bar> \<le> 0 then Break False acc1 st1
             else
               (let sd = (if amt > 0 then SELL else BUY);
                    qty = quantize step \<bar>amt\<bar>
                in if \<not> (qty > 0) then Break False acc1 st1
                   else
                     (case asterFapiSignedPost env (w_close_order w symb (attempts acc)) symb sd qty True st1 of
                        (OrderThrows, st2) \<Rightarrow> Break True acc1 st2
                      | (OrderResp ok code body, st2) \<Rightarrow>
                          Continue
                            (if ok then
                               acc1\<lparr>totalQtyClosed := totalQtyClosed acc1 + qty,
                                    sumNotionalExit := sumNotionalExit acc1 + fillPrice body tickPrice * qty,
                                    lastExitPrice := fillPrice body tickPrice\<rparr>
                             else acc1)
                            (appendLog st2 (Log_vibe_order code ok symb sd qty)
                               \<lparr>fx := fx st2 @ [Sleep 500]\<rparr>))))"

function closeLoop ::
  "Env \<Rightarrow> world \<Rightarrow> string \<Rightarrow> real \<Rightarrow> real \<Rightarrow> close_acc \<Rightarrow> store \<Rightarrow> bool \<times> close_acc \<times> store" where
  "closeLoop env w symb tickPrice step acc st =
     (if attempts acc < 8 then
        (case closeAttempt env w symb tickPrice step acc st of
           Break threw acc' st' \<Rightarrow> (threw, acc', st')
         | Continue acc' st' \<Rightarrow> closeLoop env w symb tickPrice step acc' st')
      else (False, acc, st))"
  by pat_completeness auto
termination
  by (relation "measure (\<lambda>(env, w, symb, tickPrice, step, acc, st). 8 - attempts acc)")
     (auto simp: closeAttempt_def Let_def split: pos_reply.splits if_splits prod.splits order_reply.splits)

declare closeLoop.simps [simp del]

text \<open>
  The close of one position (lines 666--744): the lot size, the polling loop, the
  final check, and the ledger update when the exchange reports the position flat and
  something was closed. \<open>openMap\<close> is the map read at the start of the enforcement
  pass; the ledger is written from it.
\<close>

definition closeStep :: "Env \<Rightarrow> world \<Rightarrow> string \<Rightarrow> real" where
  "closeStep env w symb =
     (case asterFapiGetPublicJson env (w_info_close w symb) of
        Throws \<Rightarrow> 0.0001
      | Null \<Rightarrow> fst (stepSizeForSymbol None symb)
      | Reply info \<Rightarrow> fst (stepSizeForSymbol (Some info) symb))"

definition finalAmt :: "Env \<Rightarrow> world \<Rightarrow> string \<Rightarrow> nat \<Rightarrow> real" where
  "finalAmt env w symb k =
     (if closeCreds env then
        (case w_pos w symb k of PosThrows \<Rightarrow> 0 | PosNone \<Rightarrow> 0 | PosAmt amt \<Rightarrow> amt)
      else 0)"

definition closedOf :: "string \<Rightarrow> OpenTrade \<Rightarrow> int \<Rightarrow> close_acc \<Rightarrow> ClosedTrade" where
  "closedOf symb t now acc =
     (let exitPrice = (if totalQtyClosed acc > 0 then sumNotionalExit acc / totalQtyClosed acc
                       else lastExitPrice acc);
          pnlUsd = (if ot_side t = LONG then (exitPrice - ot_entryPrice t) * totalQtyClosed acc
                    else (ot_entryPrice t - exitPrice) * totalQtyClosed acc)
      in \<lparr> ct_symbol = symb,
           ct_side = ot_side t,
           ct_qty = totalQtyClosed acc,
           ct_entryPrice = ot_entryPrice t,
           ct_exitPrice = exitPrice,
           ct_notionalEntry = ot_entryPrice t * totalQtyClosed acc,
           ct_notionalExit = exitPrice * totalQtyClosed acc,
           ct_openedAt = ot_openedAt t,
           ct_closedAt = now,
           ct_holdingMs = max 0 (now - ot_openedAt t),
           ct_pnlUsd = pnlUsd,
           ct_provider = ot_provider t,
           ct_model = ot_model t,
           ct_thesis = ot_thesis t \<rparr>)"

definition closeToFlat ::
  "Env \<Rightarrow> world \<Rightarrow> string \<Rightarrow> OpenTrade \<Rightarrow> int \<Rightarrow> real \<Rightarrow> (string \<times> OpenTrade) list \<Rightarrow> store
     \<Rightarrow> bool \<times> (string \<times> OpenTrade) list \<times> store" where
  "closeToFlat env w symb t now tickPrice openMap st =
     (case closeLoop env w symb tickPrice (closeStep env w symb)
             \<lparr>attempts = 0, totalQtyClosed = 0, sumNotionalExit = 0, lastExitPrice = tickPrice\<rparr> st of
        (True, acc, st1) \<Rightarrow> (True, openMap, st1)
      | (False, acc, st1) \<Rightarrow>
          (let st2 = (if closeCreds env then st1\<lparr>fx := fx st1 @ [FetchPositionRisk symb]\<rparr> else st1)
           in if \<bar>finalAmt env w symb (attempts acc)\<bar> \<le> 0 \<and> totalQtyClosed acc > 0 then
                (let st3 = st2\<lparr>kv_trades := appendClosedTrade (kv_trades st2) (closedOf symb t now acc)\<rparr>;
                     openMap' = AList.delete symb openMap
                 in (False, openMap', st3\<lparr>kv_open_trades := openMap'\<rparr>))
              else (False, openMap, st2)))"

text \<open>
  One turn of the loop over the open positions (lines 638--745). A ticker price of 0
  (also the \<open>null\<close> of a failed request) skips the position; an exception of the
  ticker request leaves the pass.
\<close>

definition enforceSym ::
  "Env \<Rightarrow> VibeConfig \<Rightarrow> world \<Rightarrow> string \<Rightarrow> (string \<times> OpenTrade) list \<Rightarrow> store
     \<Rightarrow> bool \<times> (string \<times> OpenTrade) list \<times> store" where
  "enforceSym env cfg w symb openMap st =
     (case map_of openMap symb of
        None \<Rightarrow> (True, openMap, st)
      | Some t \<Rightarrow>
          (let now = w_now_enforce w symb
           in case asterFapiGetPublicJson env (w_ticker w symb) of
                Throws \<Rightarrow> (True, openMap, st)
              | Null \<Rightarrow> (False, openMap, st)
              | Reply tickPrice \<Rightarrow>
                  if tickPrice = 0 then (False, openMap, st)
                  else if fst (exitCheck cfg t now tickPrice)
                       then closeToFlat env w symb t now tickPrice openMap st
                       else (False, openMap, st)))"

fun enforceLoop ::
  "Env \<Rightarrow> VibeConfig \<Rightarrow> world \<Rightarrow> string list \<Rightarrow> (string \<times> OpenTrade) list \<Rightarrow> store
     \<Rightarrow> bool \<times> (string \<times> OpenTrade) list \<times> store" where
  "enforceLoop env cfg w [] openMap st = (False, openMap, st)"
| "enforceLoop env cfg w (symb # syms) openMap st =
     (case enforceSym env cfg w symb openMap st of
        (True, openMap', st') \<Rightarrow> (True, openMap', st')
      | (False, openMap', st') \<Rightarrow> enforceLoop env cfg w syms openMap' st')"

definition enforce :: "Env \<Rightarrow> VibeConfig \<Rightarrow> world \<Rightarrow> store \<Rightarrow> store" where
  "enforce env cfg w st =
     snd (snd (enforceLoop env cfg w (map fst (kv_open_trades st)) (kv_open_trades st) st))"

subsection \<open>The decision oracle (callLLMDecider, lines 521--568)\<close>

text \<open>\<open>data?.choices?.[0]?.message?.content || '{}'\<close>\<close>

definition llmContent :: "json \<Rightarrow> json" where
  "llmContent data =
     (case jfield data ''choices'' of
        None \<Rightarrow> JStr ''{}''
      | Some cs \<Rightarrow>
          (case jfirst cs of
             None \<Rightarrow> JStr ''{}''
           | Some c \<Rightarrow>
               (case jfield c ''message'' of
                  None \<Rightarrow> JStr ''{}''
                | Some m \<Rightarrow>
                    (case jfield m ''content'' of
                       None \<Rightarrow> JStr ''{}''
                     | Some v \<Rightarrow> if jtruthy v then v else JStr ''{}''))))"

record llm_meta =
  m_provider :: "string option"
  m_model :: "string option"
  m_thesis :: "string option"
  m_stopLoss :: "real option"
  m_takeProfit :: "real option"
  m_minHoldMs :: "int option"

definition emptyMeta :: llm_meta where
  "emptyMeta = \<lparr> m_provider = None, m_model = None, m_thesis = None, m_stopLoss = None,
                 m_takeProfit = None, m_minHoldMs = None \<rparr>"

definition callLLMDecider ::
  "Env \<Rightarrow> VibeConfig \<Rightarrow> http_reply \<Rightarrow> (json \<Rightarrow> json option) \<Rightarrow> failure + (json \<times> llm_meta)" where
  "callLLMDecider env cfg r JSON_parse =
     (if \<not> truthy (QWEN_API_KEY env) then Inl LLM_API_KEY_missing
      else
        (case r of
           FetchThrows \<Rightarrow> Inl Fetch_error
         | Http ok code body \<Rightarrow>
             if \<not> ok then Inl (Llm_http code)
             else
               (case body of
                  None \<Rightarrow> Inl Json_error
                | Some data \<Rightarrow>
                    (let parsed = (case JSON_parse (llmContent data) of
                                     None \<Rightarrow> JObj []
                                   | Some v \<Rightarrow> v)
                     in Inr (parsed,
                             emptyMeta\<lparr> m_provider := Some ''qwen'',
                                        m_model := Some (if model cfg \<noteq> [] then model cfg
                                                         else ''qwen2.5-32b-instruct'') \<rparr>)))))"

subsection \<open>The decision of a tick (vibeTick, lines 750--773)\<close>

definition withPlanFields :: "json \<Rightarrow> llm_meta \<Rightarrow> llm_meta" where
  "withPlanFields parsed meta =
     (let m1 = (case jfield parsed ''thesis'' of Some (JStr t) \<Rightarrow> meta\<lparr>m_thesis := Some t\<rparr> | _ \<Rightarrow> meta);
          m2 = (case jfield parsed ''stop_loss_price'' of Some (JNum x) \<Rightarrow> m1\<lparr>m_stopLoss := Some x\<rparr> | _ \<Rightarrow> m1);
          m3 = (case jfield parsed ''take_profit_price'' of Some (JNum x) \<Rightarrow> m2\<lparr>m_takeProfit := Some x\<rparr> | _ \<Rightarrow> m2)
      in (case jfield parsed ''min_hold_minutes'' of
            Some (JNum x) \<Rightarrow> m3\<lparr>m_minHoldMs := Some (max 0 \<lfloor>x * 60 * 1000\<rfloor>)\<rparr>
          | _ \<Rightarrow> m3))"

definition selectSymbol :: "VibeConfig \<Rightarrow> json \<Rightarrow> string option" where
  "selectSymbol cfg parsed =
     (case jfield parsed ''symbol'' of
        Some (JStr t) \<Rightarrow>
          if t \<in> set (universe cfg) then Some t
          else (case universe cfg of [] \<Rightarrow> None | u # us \<Rightarrow> Some u)
      | _ \<Rightarrow> (case universe cfg of [] \<Rightarrow> None | u # us \<Rightarrow> Some u))"

definition selectAction :: "json \<Rightarrow> action" where
  "selectAction parsed =
     (case jfield parsed ''action'' of
        Some (JStr t) \<Rightarrow>
          if t = ''LONG'' then A_LONG else if t = ''SHORT'' then A_SHORT
          else if t = ''FLAT'' then A_FLAT else A_FLAT
      | _ \<Rightarrow> A_FLAT)"

subsection \<open>The status narrator (vibeTick, lines 863--898)\<close>

datatype tick_output =
    Out_status real real string
  | Out_status_skipped
  | Out_decision action "string option" real

definition recentWindow :: int where
  "recentWindow = 3 * 60 * 1000"

definition minStatusIntervalMs :: int where
  "minStatusIntervalMs = 5 * 60 * 1000"

definition emitStatus :: "store \<Rightarrow> real \<Rightarrow> status_build \<Rightarrow> string list \<Rightarrow> tick_output \<times> store" where
  "emitStatus st eq sb hashes =
     (let unr = of_int (round (sb_unrealized sb * 100)) / 100;
          st1 = appendLog st (Log_vibe_status eq unr (sb_summary sb));
          st2 = st1\<lparr>kv_events := kv_events st1 @ [Ev_status (sb_now sb) eq unr (sb_summary sb)]\<rparr>;
          st3 = st2\<lparr>kv_last_status :=
                      Some \<lparr> ls_at = sb_now sb, ls_equityUsd = eq,
                             ls_hashes = take 12 (sb_hash sb # hashes) \<rparr>\<rparr>
      in (Out_status eq unr (sb_summary sb), st3))"

definition narrate :: "store \<Rightarrow> real \<Rightarrow> status_build \<Rightarrow> tick_output \<times> store" where
  "narrate st eq sb =
     (let lastAt = (case kv_last_status st of None \<Rightarrow> 0 | Some l \<Rightarrow> ls_at l);
          lastEq = (case kv_last_status st of None \<Rightarrow> 0 | Some l \<Rightarrow> ls_equityUsd l);
          nowTs = sb_now sb;
          pctMove = (if lastEq > 0 then \<bar>(eq - lastEq) / lastEq\<bar> else 0);
          hashes = (case kv_last_status st of None \<Rightarrow> [] | Some l \<Rightarrow> ls_hashes l);
          isDuplicate = (sb_hash sb \<in> set hashes)
      in if isDuplicate \<and> nowTs - lastAt < recentWindow \<and> pctMove < 0.003 then
           (if nowTs - lastAt \<ge> minStatusIntervalMs then emitStatus st eq sb hashes
            else (Out_status_skipped, st))
         else emitStatus st eq sb hashes)"

subsection \<open>Opening a position (vibeTick, lines 909--1005)\<close>

text \<open>
  The last ten closed trades, counted when closed less than 30 minutes ago at a loss
  (lines 919--931).
\<close>

definition recentLosses :: "ClosedTrade list \<Rightarrow> int \<Rightarrow> nat \<times> real" where
  "recentLosses closedTrades now =
     foldl (\<lambda>(n, total) t.
              if now - ct_closedAt t < 30 * 60 * 1000 \<and> ct_pnlUsd t < 0
              then (n + 1, total + ct_pnlUsd t) else (n, total))
           (0, 0) (drop (length closedTrades - 10) closedTrades)"

text \<open>
  The cooldown of three minutes since the last order and the guard against a streak of
  recent losses (lines 913--933). \<open>!rt.lastOrderAt\<close> holds for an absent stamp and
  for 0.
\<close>

definition coolOk :: "VibeRuntime \<Rightarrow> int \<Rightarrow> bool" where
  "coolOk rt now =
     (case lastOrderAt rt of None \<Rightarrow> True | Some l \<Rightarrow> l = 0 \<or> now - l > 3 * 60 * 1000)"

definition shouldSkip :: "VibeRuntime \<Rightarrow> ClosedTrade list \<Rightarrow> int \<Rightarrow> bool" where
  "shouldSkip rt closedTrades now =
     (\<not> coolOk rt now
      \<or> (fst (recentLosses closedTrades now) \<ge> 4 \<and> snd (recentLosses closedTrades now) < - 150))"

text \<open>The quantity of a new order (lines 939--950).\<close>

definition openQty :: "Env \<Rightarrow> exch_symbol list reply \<Rightarrow> string \<Rightarrow> real \<Rightarrow> real \<Rightarrow> real" where
  "openQty env info symb ntl p =
     (let qtyRaw = ntl / p;
          qty = max 0.0001 qtyRaw
      in case asterFapiGetPublicJson env info of
           Throws \<Rightarrow> qty
         | r \<Rightarrow>
             (let rules = stepSizeForSymbol (case r of Reply i \<Rightarrow> Some i | _ \<Rightarrow> None) symb;
                  step = fst rules;
                  qty1 = quantize step qty
              in case snd rules of
                   None \<Rightarrow> qty1
                 | Some mn \<Rightarrow>
                     if qty1 * p < mn
                     then max qty1 (of_int \<lceil>mn / p / step\<rceil> * step)
                     else qty1))"

definition symStr :: "string option \<Rightarrow> string" where
  "symStr v = (case v of None \<Rightarrow> ''undefined'' | Some t \<Rightarrow> t)"

definition sideOf :: "action \<Rightarrow> side" where
  "sideOf a = (if a = A_LONG then LONG else SHORT)"

text \<open>
  The ledger update after a filled order (lines 960--998): a position already open on
  the symbol is first written to the closed trades, priced at the ticker price of the
  new order; then the map entry is set to the new position.
\<close>

definition syntheticClose :: "string \<Rightarrow> OpenTrade \<Rightarrow> real \<Rightarrow> int \<Rightarrow> llm_meta \<Rightarrow> ClosedTrade" where
  "syntheticClose symb existing p now meta =
     \<lparr> ct_symbol = symb,
       ct_side = ot_side existing,
       ct_qty = ot_qty existing,
       ct_entryPrice = ot_entryPrice existing,
       ct_exitPrice = p,
       ct_notionalEntry = ot_notionalEntry existing,
       ct_notionalExit = \<bar>ot_qty existing * p\<bar>,
       ct_openedAt = ot_openedAt existing,
       ct_closedAt = now,
       ct_holdingMs = max 0 (now - ot_openedAt existing),
       ct_pnlUsd = pnlAt existing p,
       ct_provider = m_provider meta,
       ct_model = m_model meta,
       ct_thesis = ot_thesis existing \<rparr>"

definition newPosition :: "string \<Rightarrow> action \<Rightarrow> real \<Rightarrow> real \<Rightarrow> int \<Rightarrow> llm_meta \<Rightarrow> OpenTrade" where
  "newPosition symb a qty p now meta =
     \<lparr> ot_symbol = symb,
       ot_side = sideOf a,
       ot_qty = qty,
       ot_entryPrice = p,
       ot_notionalEntry = \<bar>qty * p\<bar>,
       ot_openedAt = now,
       ot_provider = m_provider meta,
       ot_model = m_model meta,
       ot_stopLoss = m_stopLoss meta,
       ot_takeProfit = m_takeProfit meta,
       ot_minHoldMs = m_minHoldMs meta,
       ot_thesis = m_thesis meta \<rparr>"

definition recordFill :: "string \<Rightarrow> action \<Rightarrow> real \<Rightarrow> real \<Rightarrow> int \<Rightarrow> llm_meta \<Rightarrow> store \<Rightarrow> store" where
  "recordFill symb a qty p now meta st =
     (let opn = kv_open_trades st;
          st1 = (case map_of opn symb of
                   Some existing \<Rightarrow>
                     st\<lparr>kv_trades := appendClosedTrade (kv_trades st)
                                        (syntheticClose symb existing p now meta)\<rparr>
                 | None \<Rightarrow> st)
      in st1\<lparr>kv_open_trades := AList.update symb (newPosition symb a qty p now meta) opn\<rparr>)"

text \<open>
  The order step. The result's first component is the message of an exception that
  reached the \<open>catch\<close> of line 1003.
\<close>

definition placeOrder ::
  "Env \<Rightarrow> world \<Rightarrow> VibeRuntime \<Rightarrow> action \<Rightarrow> string option \<Rightarrow> real \<Rightarrow> llm_meta \<Rightarrow> store
     \<Rightarrow> failure option \<times> VibeRuntime \<times> store" where
  "placeOrder env w rt a selectedSymbol ntl meta st =
     (if (a = A_LONG \<or> a = A_SHORT) \<and> truthy (ASTER_API_SECRET env) then
        (let now = w_now_order w
         in if \<not> shouldSkip rt (kv_trades st) now \<and> ntl \<ge> 10 then
              (case asterFapiGetPublicJson env (w_order_ticker w) of
                 Throws \<Rightarrow> (Some Fetch_error, rt, st)
               | r \<Rightarrow>
                   (let p = (case r of Reply v \<Rightarrow> v | _ \<Rightarrow> 0)
                    in if p > 0 then
                         (let qty = openQty env (w_info_open w) (symStr selectedSymbol) ntl p;
                              sd = (if a = A_LONG then BUY else SELL)
                          in case asterFapiSignedPost env (w_open_order w) (symStr selectedSymbol) sd qty False st of
                               (OrderThrows, st1) \<Rightarrow> (Some Fetch_error, rt, st1)
                             | (OrderResp ok code body, st1) \<Rightarrow>
                                 (let st2 = appendLog st1 (Log_vibe_order code ok (symStr selectedSymbol) sd qty)
                                  in if ok then
                                       (None, rt\<lparr>lastOrderAt := Some now, lastSignal := Some a\<rparr>,
                                        recordFill (symStr selectedSymbol) a qty p now meta st2)
                                     else (None, rt, st2)))
                       else (None, rt, st)))
            else (None, rt, st))
      else (None, rt, st))"

subsection \<open>One tick (vibeTick, lines 570--1042)\<close>

text \<open>
  The steps of a tick in the order of the source. Two steps are left out: the market
  snapshot of prices, 24h change and indicators (lines 597--632), which only goes into
  the request to the oracle, whose answer is an input here; and the write of the
  constant positions snapshot (line 1011).

  \<open>asterFapiGetJson\<close> (lines 173--186) answers \<open>null\<close> without the credentials.
  The account snapshot (lines 578--588) leaves the three numbers at 0 when the request
  throws. The exchange sends the fields of the account as non-empty decimal strings, so
  \<open>Number(acct?.x || 0)\<close> is the field's value, or 0 when it is absent, and
  \<open>totalWalletBalance || totalMarginBalance\<close> is the first of the two that is present.
  The sum \<open>wallet + unrl\<close> of two reals is finite, so the fall-back of line 586 to the
  available balance is never taken.
\<close>

definition asterFapiGetJson :: "Env \<Rightarrow> 'a reply \<Rightarrow> 'a reply" where
  "asterFapiGetJson env r = (if \<not> fapiCreds env then Null else r)"

definition num0 :: "real option \<Rightarrow> real" where
  "num0 v = (case v of None \<Rightarrow> 0 | Some x \<Rightarrow> x)"

record snapshot =
  sn_availableBalance :: real
  sn_equityUsd :: real
  sn_sampledEquity :: real

definition accountSnapshot :: "Env \<Rightarrow> acct reply \<Rightarrow> snapshot" where
  "accountSnapshot env r =
     (case asterFapiGetJson env r of
        Throws \<Rightarrow> \<lparr>sn_availableBalance = 0, sn_equityUsd = 0, sn_sampledEquity = 0\<rparr>
      | Null \<Rightarrow> \<lparr>sn_availableBalance = 0, sn_equityUsd = 0, sn_sampledEquity = 0\<rparr>
      | Reply a \<Rightarrow>
          (let avail = num0 (availableBalance a);
               wallet = (case totalWalletBalance a of Some x \<Rightarrow> x
                         | None \<Rightarrow> num0 (totalMarginBalance a));
               unrl = num0 (totalUnrealizedProfit a);
               equityUsd = wallet + unrl
           in \<lparr>sn_availableBalance = avail, sn_equityUsd = equityUsd,
               sn_sampledEquity = equityUsd\<rparr>))"

definition storeInitialEquity :: "world \<Rightarrow> real \<Rightarrow> store \<Rightarrow> store" where
  "storeInitialEquity w equityUsd st =
     (case kv_initial_equity st of
        None \<Rightarrow>
          if equityUsd > 0
          then st\<lparr>kv_initial_equity := Some \<lparr>eq_at = w_now_init w, eq_equityUsd = equityUsd\<rparr>\<rparr>
          else st
      | Some i \<Rightarrow> st)"

text \<open>
  A store write of the main \<open>try\<close> block that is not inside an inner \<open>try\<close>: it
  throws when the outside says so, and the exception reaches the \<open>catch\<close> of line 1017.
\<close>

definition logAt :: "world \<Rightarrow> fault_point \<Rightarrow> store \<Rightarrow> log_entry \<Rightarrow> store option" where
  "logAt w fp st entry = (if w_fault w fp then None else Some (appendLog st entry))"

definition consultOracle ::
  "Env \<Rightarrow> VibeConfig \<Rightarrow> world \<Rightarrow> store \<Rightarrow> (json \<times> llm_meta \<times> store) option" where
  "consultOracle env cfg w st =
     (case callLLMDecider env cfg (w_oracle w) (w_JSON_parse w) of
        Inl e \<Rightarrow>
          (case logAt w F_log_llm_error st (Log_vibe_error_llm e) of
             None \<Rightarrow> None
           | Some st1 \<Rightarrow> Some (JObj [], emptyMeta, st1))
      | Inr (parsed, meta) \<Rightarrow> Some (parsed, meta, st))"

text \<open>
  The report of the decision (lines 775--906): for FLAT the status narrator, inside a
  \<open>try\<close> that swallows every exception; otherwise the decision is logged and pushed
  to the events. \<open>Inl\<close> carries the store at the moment of an exception.
\<close>

definition reportDecision ::
  "world \<Rightarrow> real \<Rightarrow> action \<Rightarrow> string option \<Rightarrow> real \<Rightarrow> store \<Rightarrow> store + (tick_output option \<times> store)" where
  "reportDecision w equityUsd a selectedSymbol sz st =
     (if a = A_FLAT then
        (case w_status w of
           None \<Rightarrow> Inr (None, st)
         | Some sb \<Rightarrow> Inr (Some (fst (narrate st equityUsd sb)), snd (narrate st equityUsd sb)))
      else
        (case logAt w F_log_decision st (Log_vibe_decision a selectedSymbol sz) of
           None \<Rightarrow> Inl st
         | Some st1 \<Rightarrow>
             if w_fault w F_put_events then Inl st1
             else Inr (Some (Out_decision a selectedSymbol sz),
                       st1\<lparr>kv_events := kv_events st1
                              @ [Ev_decision (w_now_decision w) a selectedSymbol sz]\<rparr>)))"

text \<open>
  The order step with its \<open>catch\<close> (lines 909--1005), which logs the exception; that
  log write is itself outside any inner \<open>try\<close>.
\<close>

definition orderStep ::
  "Env \<Rightarrow> world \<Rightarrow> VibeRuntime \<Rightarrow> action \<Rightarrow> string option \<Rightarrow> real \<Rightarrow> llm_meta \<Rightarrow> store
     \<Rightarrow> (VibeRuntime \<times> store) + (VibeRuntime \<times> store)" where
  "orderStep env w rt a selectedSymbol sz meta st =
     (case placeOrder env w rt a selectedSymbol sz meta st of
        (None, rt1, st1) \<Rightarrow> Inr (rt1, st1)
      | (Some e, rt1, st1) \<Rightarrow>
          (case logAt w F_log_order_error st1 (Log_vibe_order_error e) of
             None \<Rightarrow> Inl (rt1, st1)
           | Some st2 \<Rightarrow> Inr (rt1, st2)))"

text \<open>
  The main \<open>try\<close> block (lines 748--1016). The exceptions of the oracle call and of
  the order step are caught inside it, so an exception that reaches the \<open>catch\<close> of
  line 1017 (\<open>Inl\<close>) is that of a store write. The second component is \<open>rt\<close>, which
  the order step updates in place.
\<close>

definition mainTry ::
  "Env \<Rightarrow> VibeConfig \<Rightarrow> VibeRuntime \<Rightarrow> world \<Rightarrow> real \<Rightarrow> real \<Rightarrow> store
     \<Rightarrow> (failure + (llm_meta \<times> tick_output option)) \<times> VibeRuntime \<times> store" where
  "mainTry env cfg rt w equityUsd avail st =
     (case consultOracle env cfg w st of
        None \<Rightarrow> (Inl Kv_error, rt, st)
      | Some (parsed, meta0, st1) \<Rightarrow>
          (let meta = withPlanFields parsed meta0
           in case logAt w F_log_prompt st1 (Log_vibe_prompt (m_provider meta) (m_model meta)) of
                None \<Rightarrow> (Inl Kv_error, rt, st1)
              | Some st2 \<Rightarrow>
                  (let selectedSymbol = selectSymbol cfg parsed;
                       selectedAction = selectAction parsed
                   in case logAt w F_log_llm_response st2
                             (Log_vibe_llm_response selectedAction selectedSymbol) of
                        None \<Rightarrow> (Inl Kv_error, rt, st2)
                      | Some st3 \<Rightarrow>
                          (let sz = sizeUsd cfg equityUsd avail
                           in case reportDecision w equityUsd selectedAction selectedSymbol sz st3 of
                                Inl st4 \<Rightarrow> (Inl Kv_error, rt, st4)
                              | Inr (lastOutput, st4) \<Rightarrow>
                                  (case orderStep env w rt selectedAction selectedSymbol sz meta st4 of
                                     Inl (rt5, st5) \<Rightarrow> (Inl Kv_error, rt5, st5)
                                   | Inr (rt5, st5) \<Rightarrow>
                                       if w_fault w F_put_runtime then (Inl Kv_error, rt5, st5)
                                       else (Inr (meta, lastOutput), rt5,
                                             st5\<lparr>kv_runtime :=
                                                   Some (rt5\<lparr>lastTickAt := Some (w_now_runtime w),
                                                              lastError := None,
                                                              lastProvider := m_provider meta,
                                                              lastModel := m_model meta\<rparr>)\<rparr>))))))"

text \<open>
  The \<open>catch\<close> of line 1017: it logs the message and writes the runtime record. Its
  two store writes are not inside a \<open>try\<close>; the flag is \<open>True\<close> when one of them throws,
  and the exception then leaves \<open>vibeTick\<close> (after the \<open>finally\<close>).
\<close>

definition tickCatch :: "world \<Rightarrow> VibeRuntime \<Rightarrow> failure \<Rightarrow> store \<Rightarrow> bool \<times> store" where
  "tickCatch w rt err st =
     (if w_fault w F_catch_log then (True, st)
      else
        (let st1 = appendLog st (Log_vibe_error err)
         in if w_fault w F_catch_runtime then (True, st1)
            else (False,
                  st1\<lparr>kv_runtime :=
                        Some (rt\<lparr>lastTickAt := Some (w_now_runtime w), lastError := Some err\<rparr>)\<rparr>)))"

text \<open>
  \<open>dayKey\<close> (lines 25--31) names the partition after the UTC calendar day of the time
  stamp; the model keys the partitions by the number of that day since the epoch.
\<close>

definition dayKey :: "int \<Rightarrow> int" where
  "dayKey ts = ts div 86400000"

definition largeCap :: nat where
  "largeCap = 10080 * 4"

text \<open>
  The \<open>finally\<close> of line 1023, inside its own \<open>try\<close> with an empty \<open>catch\<close>: when the
  read or the write of the rolling buffer throws, nothing is written; when the read or
  the write of the day partition throws, the rolling buffer has been written already.
\<close>

definition sampleEquity :: "world \<Rightarrow> real \<Rightarrow> store \<Rightarrow> store" where
  "sampleEquity w sampledEquity st =
     (if sampledEquity > 0 then
        (let nowTs = w_now_sample w;
             equity = kv_equity st @ [\<lparr>eq_at = nowTs, eq_equityUsd = sampledEquity\<rparr>]
         in if w_fault w F_sample_rolling then st
            else
              (let st1 = st\<lparr>kv_equity := (if length equity > largeCap
                                            then drop (length equity - largeCap) equity
                                            else equity)\<rparr>;
                   dk = dayKey nowTs;
                   dayList = kv_equity_day st1 dk @ [\<lparr>eq_at = nowTs, eq_equityUsd = sampledEquity\<rparr>]
               in if w_fault w F_sample_day then st1
                  else st1\<lparr>kv_equity_day := (kv_equity_day st1)(dk := dayList)\<rparr>))
      else st)"

text \<open>
  What \<open>vibeTick\<close> returns: \<open>{ skipped }\<close>, \<open>{ ok: true, ... }\<close>, \<open>{ ok: false, error }\<close>;
  \<open>Tick_thrown\<close> stands for an exception that leaves the function.
\<close>

datatype tick_result =
    Skipped | Tick_ok llm_meta "tick_output option" | Tick_error failure | Tick_thrown failure

definition emptyRuntime :: VibeRuntime where
  "emptyRuntime = \<lparr> lastTickAt = None, lastError = None, lastProvider = None, lastModel = None,
                    lastOrderAt = None, lastSignal = None \<rparr>"

text \<open>
  \<open>kvGetJson\<close> of the configuration and of the runtime record, with their fallbacks
  (lines 571--572).
\<close>

definition configOf :: "store \<Rightarrow> VibeConfig" where
  "configOf st = (case kv_config st of None \<Rightarrow> DEFAULT_VIBE_CONFIG | Some c \<Rightarrow> c)"

definition runtimeOf :: "store \<Rightarrow> VibeRuntime" where
  "runtimeOf st = (case kv_runtime st of None \<Rightarrow> emptyRuntime | Some r \<Rightarrow> r)"

text \<open>
  How the tick ends, given the outcome of the main \<open>try\<close> block: its \<open>return\<close>, or the
  \<open>catch\<close> with its \<open>return\<close>, and in both cases the \<open>finally\<close>.
\<close>

definition tickEnd ::
  "world \<Rightarrow> real \<Rightarrow> (failure + (llm_meta \<times> tick_output option)) \<times> VibeRuntime \<times> store
     \<Rightarrow> tick_result \<times> store" where
  "tickEnd w sampledEquity m =
     (case m of
        (Inr (meta, lastOutput), rt3, st3) \<Rightarrow>
          (Tick_ok meta lastOutput, sampleEquity w sampledEquity st3)
      | (Inl err, rt3, st3) \<Rightarrow>
          (case tickCatch w rt3 err st3 of
             (False, st4) \<Rightarrow> (Tick_error err, sampleEquity w sampledEquity st4)
           | (True, st4) \<Rightarrow> (Tick_thrown Kv_error, sampleEquity w sampledEquity st4)))"

definition vibeTick :: "Env \<Rightarrow> world \<Rightarrow> bool \<Rightarrow> store \<Rightarrow> tick_result \<times> store" where
  "vibeTick env w ignoreStatus st =
     (let cfg = configOf st;
          rt = runtimeOf st
      in if status cfg \<noteq> running \<and> \<not> ignoreStatus then (Skipped, st)
         else
           (let snap = accountSnapshot env (w_acct w);
                st1 = storeInitialEquity w (sn_equityUsd snap) st;
                st2 = enforce env cfg w st1
            in tickEnd w (sn_sampledEquity snap)
                 (mainTry env cfg rt w (sn_equityUsd snap) (sn_availableBalance snap) st2)))"

text \<open>
  The outcome of the main \<open>try\<close> block of a tick that is not skipped, as \<open>vibeTick\<close>
  calls it: after the account snapshot, the baseline write and the enforcement pass.
\<close>

definition tickMain ::
  "Env \<Rightarrow> world \<Rightarrow> store \<Rightarrow> (failure + (llm_meta \<times> tick_output option)) \<times> VibeRuntime \<times> store" where
  "tickMain env w st =
     mainTry env (configOf st) (runtimeOf st) w
       (sn_equityUsd (accountSnapshot env (w_acct w)))
       (sn_availableBalance (accountSnapshot env (w_acct w)))
       (enforce env (configOf st) w
          (storeInitialEquity w (sn_equityUsd (accountSnapshot env (w_acct w))) st))"

subsection \<open>The admin surface (handleVibeRun, handleVibeStop and the repair handlers)\<close>

record run_body =
  b_universe :: "string list option"
  b_maxRiskPerTradeUsd :: "real option"
  b_maxDailyLossUsd :: "real option"
  b_maxExposureUsd :: "real option"
  b_leverageCap :: "real option"
  b_marginMode :: "string option"
  b_model :: "string option"
  b_maxLossPerTradeUsd :: "real option"

record Request =
  x_admin_key :: "string option"
  body :: run_body

datatype 'a response = Forbidden_403 | Handled 'a

text \<open>
  Every privileged handler starts with the same three lines (for example 482--486):
  \<open>admin = env.ADMIN_KEY; key = req.headers.get('x-admin-key') || '';
  if (!admin || key !== admin) return 403\<close>.
\<close>

definition forbidden :: "Env \<Rightarrow> Request \<Rightarrow> bool" where
  "forbidden env req =
     (let admin = ADMIN_KEY env;
          key = orEmpty (x_admin_key req)
      in \<not> truthy admin \<or> Some key \<noteq> admin)"

definition handleVibeRun :: "Env \<Rightarrow> Request \<Rightarrow> store \<Rightarrow> VibeConfig response \<times> store" where
  "handleVibeRun env req st =
     (if forbidden env req then (Forbidden_403, st)
      else
        (let b = body req;
             cfg = configOf st;
             nxt = cfg\<lparr> status := running,
                        universe := (case b_universe b of Some u \<Rightarrow> if u \<noteq> [] then u else universe cfg
                                     | None \<Rightarrow> universe cfg),
                        maxRiskPerTradeUsd := (case b_maxRiskPerTradeUsd b of Some v \<Rightarrow> v
                                               | None \<Rightarrow> maxRiskPerTradeUsd cfg),
                        maxDailyLossUsd := (case b_maxDailyLossUsd b of Some v \<Rightarrow> v
                                            | None \<Rightarrow> maxDailyLossUsd cfg),
                        maxExposureUsd := (case b_maxExposureUsd b of Some v \<Rightarrow> v
                                           | None \<Rightarrow> maxExposureUsd cfg),
                        leverageCap := (case b_leverageCap b of Some v \<Rightarrow> v | None \<Rightarrow> leverageCap cfg),
                        marginMode := (if b_marginMode b = Some ''isolated'' then isolated else cross),
                        model := (case b_model b of Some m \<Rightarrow> if m \<noteq> [] then m else model cfg
                                  | None \<Rightarrow> model cfg),
                        maxLossPerTradeUsd := (case b_maxLossPerTradeUsd b of Some v \<Rightarrow> Some v
                                               | None \<Rightarrow> maxLossPerTradeUsd cfg) \<rparr>
         in (Handled nxt, appendLog (st\<lparr>kv_config := Some nxt\<rparr>) (Log_run_status running))))"

definition handleVibeStop :: "Env \<Rightarrow> Request \<Rightarrow> store \<Rightarrow> VibeConfig response \<times> store" where
  "handleVibeStop env req st =
     (if forbidden env req then (Forbidden_403, st)
      else
        (let cfg = configOf st;
             nxt = cfg\<lparr>status := stopped\<rparr>
         in (Handled nxt, appendLog (st\<lparr>kv_config := Some nxt\<rparr>) (Log_run_status stopped))))"

text \<open>
  The equity and trade repair handlers (\<open>handleVibeBackfillEquity\<close>,
  \<open>handleVibeEraseEquity\<close>, \<open>handleVibeRestoreEquityFromLogs\<close>,
  \<open>handleVibeReconstructEquity\<close>, \<open>handleScanNearestAnchor\<close>, \<open>handleSetAnchor\<close>,
  \<open>handleVibeOldOpenTrades\<close>, \<open>handleVibeCloseOldOpenTrades\<close>,
  \<open>handleVibeCloseAllPositions\<close>, \<open>handleAppendClosedTrade\<close>,
  \<open>handleBackfillTradesIncome\<close>, \<open>handleVibeBackfillTrades\<close>) have the same guard in
  front of their work; the work past the guard is the parameter \<open>repair\<close>.
\<close>

definition handleRepair ::
  "Env \<Rightarrow> Request \<Rightarrow> (store \<Rightarrow> 'a \<times> store) \<Rightarrow> store \<Rightarrow> 'a response \<times> store" where
  "handleRepair env req repair st =
     (if forbidden env req then (Forbidden_403, st)
      else (Handled (fst (repair st)), snd (repair st)))"

subsection \<open>Reading the trace of exchange calls\<close>

fun isPoll :: "effect \<Rightarrow> bool" where
  "isPoll (FetchPositionRisk s) = True"
| "isPoll e = False"

definition pollCount :: "effect list \<Rightarrow> nat" where
  "pollCount es = length (filter isPoll es)"

text \<open>A delay of another length than the 500 ms of the close path.\<close>

fun isOtherSleep :: "effect \<Rightarrow> bool" where
  "isOtherSleep (Sleep d) = (d \<noteq> 500)"
| "isOtherSleep e = False"

text \<open>An order that is not reduce-only: one that can open a position.\<close>

fun isOpenOrder :: "effect \<Rightarrow> bool" where
  "isOpenOrder (PostOrder s sd q ro) = (\<not> ro)"
| "isOpenOrder e = False"

text \<open>
  \<open>llm.parsed\<close> as it stands after the \<open>try\<close>/\<open>catch\<close> around the oracle call (lines
  754--760): the empty object when the call threw.
\<close>

definition llmParsed :: "Env \<Rightarrow> VibeConfig \<Rightarrow> world \<Rightarrow> json" where
  "llmParsed env cfg w =
     (case callLLMDecider env cfg (w_oracle w) (w_JSON_parse w) of
        Inl e \<Rightarrow> JObj [] | Inr (parsed, meta) \<Rightarrow> parsed)"



subsection \<open>A concrete scenario\<close>

text \<open>
  A LONG position of 2 BTCUSDT entered at 100 with stop 95 and target 110, fifteen
  minutes of minimum hold, one minute old; the price has dropped to 94.
\<close>

definition exEnv :: Env where
  "exEnv = \<lparr> ASTER_API_BASE = Some ''https://fapi.example'', ASTER_API_KEY = Some ''key'',
             ASTER_API_SECRET = Some ''secret'', ADMIN_KEY = None, QWEN_API_KEY = Some ''qwen'' \<rparr>"

definition exTrade :: OpenTrade where
  "exTrade = \<lparr> ot_symbol = ''BTCUSDT'', ot_side = LONG, ot_qty = 2, ot_entryPrice = 100,
               ot_notionalEntry = 200, ot_openedAt = 0, ot_provider = Some ''qwen'',
               ot_model = Some ''qwen2.5-32b-instruct'', ot_stopLoss = Some 95,
               ot_takeProfit = Some 110, ot_minHoldMs = Some 900000, ot_thesis = None \<rparr>"

definition exStore :: store where
  "exStore = \<lparr> kv_config = None, kv_runtime = None, kv_logs = [],
               kv_open_trades = [(''BTCUSDT'', exTrade)], kv_trades = [], kv_equity = [],
               kv_equity_day = (\<lambda>d. []), kv_last_status = None, kv_events = [],
               kv_initial_equity = None, fx = [] \<rparr>"

definition exAcct :: acct where
  "exAcct = \<lparr> availableBalance = Some 800, totalWalletBalance = Some 1000,
              totalMarginBalance = None, totalUnrealizedProfit = Some 0 \<rparr>"

text \<open>
  An account reply that carries the available balance only, and one whose unrealized
  loss exceeds the wallet balance.
\<close>

definition exAcctCash :: acct where
  "exAcctCash = \<lparr> availableBalance = Some 100, totalWalletBalance = None,
                  totalMarginBalance = None, totalUnrealizedProfit = None \<rparr>"

definition exAcctLoss :: acct where
  "exAcctLoss = \<lparr> availableBalance = Some 0, totalWalletBalance = Some 100,
                  totalMarginBalance = None, totalUnrealizedProfit = Some (- 110) \<rparr>"

text \<open>
  The body of an admin request that asks for a per-trade cap of 5000. The environment
  above has no admin secret.
\<close>

definition exBody :: run_body where
  "exBody = \<lparr> b_universe = None, b_maxRiskPerTradeUsd = Some 5000, b_maxDailyLossUsd = None,
              b_maxExposureUsd = None, b_leverageCap = None, b_marginMode = None,
              b_model = None, b_maxLossPerTradeUsd = None \<rparr>"

text \<open>
  The exchange keeps reporting the position at 2 and accepts every order; the oracle
  request fails; no store write fails.
\<close>

definition exWorld :: world where
  "exWorld = \<lparr> w_acct = Reply exAcct, w_now_init = 60000, w_now_enforce = (\<lambda>s. 60000),
               w_ticker = (\<lambda>s. Reply 94), w_info_close = (\<lambda>s. Null),
               w_pos = (\<lambda>s k. PosAmt 2),
               w_close_order = (\<lambda>s k. OrderResp True 200 \<lparr>avgPrice = Some 94, price = None\<rparr>),
               w_oracle = FetchThrows, w_JSON_parse = (\<lambda>v. None), w_status = None,
               w_now_decision = 61000, w_now_order = 61000, w_order_ticker = Reply 94,
               w_info_open = Null,
               w_open_order = OrderResp True 200 \<lparr>avgPrice = Some 94, price = None\<rparr>,
               w_now_runtime = 62000, w_now_sample = 62000, w_fault = (\<lambda>p. False) \<rparr>"





definition exStore0 :: store where
  "exStore0 = exStore\<lparr>kv_open_trades := []\<rparr>"

text \<open>
  An oracle that answers with the plan LONG on FOOUSDT, a symbol outside the universe;
  the ticker of the order is at 100.
\<close>

definition exPlan :: json where
  "exPlan = JObj [(''action'', JStr ''LONG''), (''symbol'', JStr ''FOOUSDT'')]"

definition exData :: json where
  "exData = JObj [(''choices'', JArr [JObj [(''message'', JObj [(''content'', JStr ''plan'')])]])]"

definition exWorldPlan :: world where
  "exWorldPlan = exWorld\<lparr>w_oracle := Http True 200 (Some exData),
                         w_JSON_parse := (\<lambda>v. if v = JStr ''plan'' then Some exPlan else None),
                         w_order_ticker := Reply 100\<rparr>"

section \<open>Order sizing\<close>

lemma sizeUsd_positive_equity:
  "0 < e \<Longrightarrow> sizeUsd cfg e a = min (maxRiskPerTradeUsd cfg) (of_int \<lfloor>e * targetFraction\<rfloor>)"
proof -
  assume "0 < e"
  then have "0 \<le> e * targetFraction" by (simp add: targetFraction_def)
  then have "(0::int) \<le> \<lfloor>e * targetFraction\<rfloor>" by simp
  then have "(0::real) \<le> of_int \<lfloor>e * targetFraction\<rfloor>" by simp
  with \<open>0 < e\<close> show ?thesis by (simp add: sizeUsd_def targetRisk_def max_def)
qed

text \<open>
  C5 (as the code has it). For a positive equity the order size is
  \<open>min(perTradeCap, floor(equity * targetFraction))\<close> with the fixed fraction 0.5, and
  equity 1000 with cap 1500 gives 500. In general the size is
  \<open>min(perTradeCap, max(0, floor(e * 0.5)))\<close> where \<open>e\<close> is the equity, or the
  available balance when the equity is 0.
\<close>

theorem sizeUsd_clamp:
  "targetFraction = 0.5
   \<and> sizeUsd cfg e a
       = min (maxRiskPerTradeUsd cfg)
             (max 0 (of_int \<lfloor>(if e \<noteq> 0 then e else a) * targetFraction\<rfloor>))
   \<and> (0 < e \<longrightarrow> sizeUsd cfg e a = min (maxRiskPerTradeUsd cfg) (of_int \<lfloor>e * targetFraction\<rfloor>))
   \<and> sizeUsd (cfg\<lparr>maxRiskPerTradeUsd := 1500\<rparr>) 1000 a = 500"
proof -
  have "sizeUsd (cfg\<lparr>maxRiskPerTradeUsd := 1500\<rparr>) 1000 a = 500"
    by (simp add: sizeUsd_def targetRisk_def targetFraction_def)
  then show ?thesis
    using sizeUsd_positive_equity [of e cfg a]
    by (simp add: targetFraction_def sizeUsd_def targetRisk_def)
qed

theorem sizeUsd_clamp_witness:
  "(0::real) < 1000
   \<and> sizeUsd DEFAULT_VIBE_CONFIG 1000 0 = min (maxRiskPerTradeUsd DEFAULT_VIBE_CONFIG) (of_int \<lfloor>1000 * targetFraction\<rfloor>)
   \<and> sizeUsd DEFAULT_VIBE_CONFIG 1000 0 = 500"
  using sizeUsd_clamp [of DEFAULT_VIBE_CONFIG 1000 0]
  by (simp add: DEFAULT_VIBE_CONFIG_def targetFraction_def)

text \<open>
  The formula \<open>min(perTradeCap, floor(equity * targetFraction))\<close> does not hold for every
  tick. When the account reply carries an available balance of 100 and no wallet
  balance, the snapshot reads the equity 0, and the code sizes the order at 50 where
  the formula gives 0. When the unrealized loss exceeds the wallet balance, the
  snapshot reads the equity -10, and the code sizes the order at 0 where the formula
  gives -5.
\<close>

theorem sizeUsd_formula_counterexample:
  "accountSnapshot exEnv (Reply exAcctCash)
     = \<lparr>sn_availableBalance = 100, sn_equityUsd = 0, sn_sampledEquity = 0\<rparr>
   \<and> sizeUsd DEFAULT_VIBE_CONFIG 0 100 = 50
   \<and> sizeUsd DEFAULT_VIBE_CONFIG 0 100
       \<noteq> min (maxRiskPerTradeUsd DEFAULT_VIBE_CONFIG) (of_int \<lfloor>0 * targetFraction\<rfloor>)
   \<and> accountSnapshot exEnv (Reply exAcctLoss)
     = \<lparr>sn_availableBalance = 0, sn_equityUsd = - 10, sn_sampledEquity = - 10\<rparr>
   \<and> sizeUsd DEFAULT_VIBE_CONFIG (- 10) 0 = 0
   \<and> min (maxRiskPerTradeUsd DEFAULT_VIBE_CONFIG) (of_int \<lfloor>- 10 * targetFraction\<rfloor>) = - 5"
proof -
  have c: "fapiCreds exEnv"
    by (simp add: fapiCreds_def exEnv_def orEmpty_def trim_def stripSlashes_def isSpace_def truthy_def)
  have 1: "accountSnapshot exEnv (Reply exAcctCash)
     = \<lparr>sn_availableBalance = 100, sn_equityUsd = 0, sn_sampledEquity = 0\<rparr>"
    by (simp add: accountSnapshot_def asterFapiGetJson_def c exAcctCash_def num0_def Let_def)
  have 2: "accountSnapshot exEnv (Reply exAcctLoss)
     = \<lparr>sn_availableBalance = 0, sn_equityUsd = - 10, sn_sampledEquity = - 10\<rparr>"
    by (simp add: accountSnapshot_def asterFapiGetJson_def c exAcctLoss_def num0_def Let_def)
  have 3: "sizeUsd DEFAULT_VIBE_CONFIG 0 100 = 50"
    by (simp add: sizeUsd_def targetRisk_def targetFraction_def DEFAULT_VIBE_CONFIG_def)
  have 4: "min (maxRiskPerTradeUsd DEFAULT_VIBE_CONFIG) (of_int \<lfloor>0 * targetFraction\<rfloor>) = (0::real)"
    by (simp add: DEFAULT_VIBE_CONFIG_def)
  have 5: "sizeUsd DEFAULT_VIBE_CONFIG (- 10) 0 = 0"
    by (simp add: sizeUsd_def targetRisk_def targetFraction_def DEFAULT_VIBE_CONFIG_def)
  have 6: "min (maxRiskPerTradeUsd DEFAULT_VIBE_CONFIG) (of_int \<lfloor>- 10 * targetFraction\<rfloor>) = (- 5::real)"
    by (simp add: targetFraction_def DEFAULT_VIBE_CONFIG_def)
  from 1 2 3 4 5 6 show ?thesis by simp
qed

section \<open>Quantity rounding\<close>




















section \<open>Bounded closed-trade history\<close>

lemma appendClosedTrade_drop:
  "appendClosedTrade xs t = drop (length (xs @ [t]) - 2000) (xs @ [t])"
  by (simp add: appendClosedTrade_def Let_def)

lemma appendClosedTrade_step:
  "appendClosedTrade (drop (length zs - 2000) zs) u
     = drop (length (zs @ [u]) - 2000) (zs @ [u])"
proof (cases "length zs \<ge> 2000")
  case True
  then have len: "length (drop (length zs - 2000) zs) = 2000" by simp
  have "appendClosedTrade (drop (length zs - 2000) zs) u
      = drop 1 (drop (length zs - 2000) zs @ [u])"
    by (simp only: appendClosedTrade_drop length_append len) simp
  also have "\<dots> = drop (Suc (length zs - 2000)) zs @ [u]"
    using len by (simp add: drop_Suc tl_drop)
  also have "\<dots> = drop (length (zs @ [u]) - 2000) (zs @ [u])"
  proof -
    have "Suc (length zs - 2000) = length (zs @ [u]) - 2000" using True by simp
    then show ?thesis using True by (simp only: drop_append) simp
  qed
  finally show ?thesis .
next
  case False
  then show ?thesis by (simp add: appendClosedTrade_drop)
qed

lemma foldl_appendClosedTrade:
  "foldl appendClosedTrade (appendClosedTrade xs t) ts
     = drop (length (xs @ t # ts) - 2000) (xs @ t # ts)"
proof (induction ts rule: rev_induct)
  case Nil
  show ?case by (simp add: appendClosedTrade_drop)
next
  case (snoc u us)
  have "foldl appendClosedTrade (appendClosedTrade xs t) (us @ [u])
      = appendClosedTrade (drop (length (xs @ t # us) - 2000) (xs @ t # us)) u"
    using snoc.IH by simp
  also have "\<dots> = drop (length ((xs @ t # us) @ [u]) - 2000) ((xs @ t # us) @ [u])"
    by (rule appendClosedTrade_step)
  finally show ?case by simp
qed

text \<open>
  C8. The closed-trade list is a bounded first-in-first-out history: after one append
  followed by any further sequence of appends, the stored list is exactly the last
  entries of everything that was ever in it, in append order, with the oldest
  \<open>length - 2000\<close> entries removed; its length never exceeds 2000.
\<close>

theorem closed_trades_bounded_fifo:
  "foldl appendClosedTrade (appendClosedTrade xs t) ts
       = drop (length (xs @ t # ts) - 2000) (xs @ t # ts)
   \<and> length (foldl appendClosedTrade (appendClosedTrade xs t) ts) \<le> 2000"
  by (simp add: foldl_appendClosedTrade)

section \<open>Enforcing exits on open positions\<close>

text \<open>
  C1. For an open position that the tick evaluates (the ticker gave a price other than
  0): when the position is LONG and the price is at or below its stop-loss price, or
  SHORT and the price at or above it, the exit rules answer "close" with the reason
  "Stop-loss hit", whatever the clock, the minimum hold and the take-profit level are,
  and the enforcement pass runs the close of that symbol. The stop-loss check comes
  first: the take-profit check cannot replace its answer.
\<close>

theorem stop_loss_first:
  assumes "map_of openMap symb = Some t"
      and "asterFapiGetPublicJson env (w_ticker w symb) = Reply p" and "p \<noteq> 0"
      and "ot_stopLoss t = Some sl"
      and "(ot_side t = LONG \<and> p \<le> sl) \<or> (ot_side t = SHORT \<and> p \<ge> sl)"
  shows "exitCheck cfg t (w_now_enforce w symb) p = (True, Stop_loss_hit)
       \<and> enforceSym env cfg w symb openMap st
           = closeToFlat env w symb t (w_now_enforce w symb) p openMap st"
proof -
  have sl: "stopLossCheck t p = (True, Stop_loss_hit)"
    using assms(4,5) by (auto simp: stopLossCheck_def)
  have "exitCheck cfg t (w_now_enforce w symb) p = (True, Stop_loss_hit)"
    by (simp add: exitCheck_def sl takeProfitCheck_def maxLossCheck_def split: option.splits)
  then show ?thesis using assms(1,2,3) by (simp add: enforceSym_def)
qed

lemma pollCount_app [simp]: "pollCount (xs @ ys) = pollCount xs + pollCount ys"
  by (simp add: pollCount_def)

lemma pollCount_simps [simp]:
  "pollCount [] = 0" "pollCount (e # es) = (if isPoll e then 1 else 0) + pollCount es"
  by (simp_all add: pollCount_def)

lemma appendLog_fields [simp]:
  "fx (appendLog st e) = fx st"
  "kv_trades (appendLog st e) = kv_trades st"
  "kv_open_trades (appendLog st e) = kv_open_trades st"
  "kv_equity (appendLog st e) = kv_equity st"
  "kv_equity_day (appendLog st e) = kv_equity_day st"
  by (simp_all add: appendLog_def Let_def)

lemma closeAttempt_frame:
  assumes "closeAttempt env w symb tp step acc st = Break b acc' st'
         \<or> closeAttempt env w symb tp step acc st = Continue acc' st'"
  shows "attempts acc' = attempts acc + 1"
    and "kv_trades st' = kv_trades st" and "kv_open_trades st' = kv_open_trades st"
    and "kv_equity st' = kv_equity st" and "kv_equity_day st' = kv_equity_day st"
    and "pollCount (fx st') \<le> pollCount (fx st) + 1"
    and "filter isOtherSleep (fx st') = filter isOtherSleep (fx st)"
    and "filter isOpenOrder (fx st') = filter isOpenOrder (fx st)"
  using assms
  by (auto simp: closeAttempt_def Let_def asterFapiSignedPost_def
           split: pos_reply.splits if_splits prod.splits order_reply.splits)

lemma closeLoop_frame:
  "closeLoop env w symb tp step acc st = (b, acc', st') \<Longrightarrow>
     kv_trades st' = kv_trades st \<and> kv_open_trades st' = kv_open_trades st
     \<and> kv_equity st' = kv_equity st \<and> kv_equity_day st' = kv_equity_day st
     \<and> filter isOtherSleep (fx st') = filter isOtherSleep (fx st)
     \<and> filter isOpenOrder (fx st') = filter isOpenOrder (fx st)"
proof (induction env w symb tp step acc st arbitrary: b acc' st' rule: closeLoop.induct)
  case (1 env w symb tickPrice step acc st)
  show ?case
  proof (cases "attempts acc < 8")
    case False
    with "1.prems" show ?thesis by (simp add: closeLoop.simps)
  next
    case lt: True
    show ?thesis
    proof (cases "closeAttempt env w symb tickPrice step acc st")
      case (Break t a s)
      with "1.prems" lt have "st' = s" by (simp add: closeLoop.simps)
      with closeAttempt_frame [OF disjI1, OF Break] show ?thesis by simp
    next
      case (Continue a s)
      with "1.prems" lt have "closeLoop env w symb tickPrice step a s = (b, acc', st')"
        by (simp add: closeLoop.simps)
      from "1.IH" [OF lt Continue this] closeAttempt_frame [OF disjI2, OF Continue]
      show ?thesis by simp
    qed
  qed
qed

lemma closeLoop_polls:
  "closeLoop env w symb tp step acc st = (b, acc', st') \<Longrightarrow> attempts acc \<le> 8 \<Longrightarrow>
     attempts acc' \<le> 8 \<and> attempts acc \<le> attempts acc'
     \<and> pollCount (fx st') + attempts acc \<le> pollCount (fx st) + attempts acc'"
proof (induction env w symb tp step acc st arbitrary: b acc' st' rule: closeLoop.induct)
  case (1 env w symb tickPrice step acc st)
  show ?case
  proof (cases "attempts acc < 8")
    case False
    with "1.prems" show ?thesis by (simp add: closeLoop.simps)
  next
    case lt: True
    show ?thesis
    proof (cases "closeAttempt env w symb tickPrice step acc st")
      case (Break t a s)
      with "1.prems" lt have "st' = s" "acc' = a" by (simp_all add: closeLoop.simps)
      with closeAttempt_frame(1,6) [OF disjI1, OF Break] lt show ?thesis by simp
    next
      case (Continue a s)
      with "1.prems" lt have rec: "closeLoop env w symb tickPrice step a s = (b, acc', st')"
        by (simp add: closeLoop.simps)
      have "attempts a \<le> 8" using closeAttempt_frame(1) [OF disjI2, OF Continue] lt by simp
      from "1.IH" [OF lt Continue rec this] closeAttempt_frame(1,6) [OF disjI2, OF Continue]
      show ?thesis by linarith
    qed
  qed
qed

theorem stop_loss_first_witness:
  "exitCheck DEFAULT_VIBE_CONFIG exTrade (w_now_enforce exWorld ''BTCUSDT'') 94 = (True, Stop_loss_hit)
   \<and> \<not> minHoldOk exTrade (w_now_enforce exWorld ''BTCUSDT'')
   \<and> enforceSym exEnv DEFAULT_VIBE_CONFIG exWorld ''BTCUSDT'' (kv_open_trades exStore) exStore
       = closeToFlat exEnv exWorld ''BTCUSDT'' exTrade 60000 94 (kv_open_trades exStore) exStore"
proof -
  have 1: "map_of (kv_open_trades exStore) ''BTCUSDT'' = Some exTrade"
    by (simp add: exStore_def)
  have 2: "asterFapiGetPublicJson exEnv (w_ticker exWorld ''BTCUSDT'') = Reply 94"
    by (simp add: asterFapiGetPublicJson_def exEnv_def exWorld_def orEmpty_def trim_def
        stripSlashes_def isSpace_def)
  have 3: "(94::real) \<noteq> 0" by simp
  have 4: "ot_stopLoss exTrade = Some 95" by (simp add: exTrade_def)
  have 5: "(ot_side exTrade = LONG \<and> (94::real) \<le> 95) \<or> (ot_side exTrade = SHORT \<and> (94::real) \<ge> 95)"
    by (simp add: exTrade_def)
  have 6: "\<not> minHoldOk exTrade (w_now_enforce exWorld ''BTCUSDT'')"
    by (simp add: minHoldOk_def exTrade_def exWorld_def)
  have 7: "w_now_enforce exWorld ''BTCUSDT'' = 60000" by (simp add: exWorld_def)
  show ?thesis
    using stop_loss_first [OF 1 2 3 4 5, of DEFAULT_VIBE_CONFIG exStore] 6 7 by simp
qed

text \<open>
  C2. The close path polls the exchange-reported position at most 8 times in its loop,
  every delay it adds is the fixed 500 ms, and when the final check still reports a
  quantity other than 0, no closed trade is appended and the open-position map, the
  local one and the stored one, is left as it was.
\<close>

theorem close_to_flat_sticky_failure:
  assumes "closeLoop env w symb p (closeStep env w symb)
             \<lparr>attempts = 0, totalQtyClosed = 0, sumNotionalExit = 0, lastExitPrice = p\<rparr> st
           = (threw, acc, st1)"
      and "finalAmt env w symb (attempts acc) \<noteq> 0"
  shows "attempts acc \<le> 8
       \<and> pollCount (fx st1) \<le> pollCount (fx st) + 8
       \<and> filter isOtherSleep (fx st1) = filter isOtherSleep (fx st)
       \<and> fst (snd (closeToFlat env w symb t now p openMap st)) = openMap
       \<and> kv_trades (snd (snd (closeToFlat env w symb t now p openMap st))) = kv_trades st
       \<and> kv_open_trades (snd (snd (closeToFlat env w symb t now p openMap st))) = kv_open_trades st"
proof -
  have polls: "attempts acc \<le> 8 \<and> pollCount (fx st1) \<le> pollCount (fx st) + 8"
    using closeLoop_polls [OF assms(1)] by simp
  have frame: "kv_trades st1 = kv_trades st \<and> kv_open_trades st1 = kv_open_trades st
     \<and> filter isOtherSleep (fx st1) = filter isOtherSleep (fx st)"
    using closeLoop_frame [OF assms(1)] by simp
  have "closeToFlat env w symb t now p openMap st
      = (if threw then (True, openMap, st1)
         else (False, openMap,
               if closeCreds env then st1\<lparr>fx := fx st1 @ [FetchPositionRisk symb]\<rparr> else st1))"
    using assms by (simp add: closeToFlat_def Let_def)
  with polls frame show ?thesis by simp
qed

lemma exCreds: "closeCreds exEnv" "fapiCreds exEnv"
  by (simp_all add: closeCreds_def fapiCreds_def exEnv_def orEmpty_def trim_def stripSlashes_def
      isSpace_def truthy_def)

theorem close_to_flat_sticky_failure_witness:
  "finalAmt exEnv exWorld ''BTCUSDT''
       (attempts (fst (snd (closeLoop exEnv exWorld ''BTCUSDT'' 94 (closeStep exEnv exWorld ''BTCUSDT'')
          \<lparr>attempts = 0, totalQtyClosed = 0, sumNotionalExit = 0, lastExitPrice = 94\<rparr> exStore)))) = 2
   \<and> fst (snd (closeToFlat exEnv exWorld ''BTCUSDT'' exTrade 60000 94 (kv_open_trades exStore) exStore))
       = [(''BTCUSDT'', exTrade)]
   \<and> kv_trades (snd (snd (closeToFlat exEnv exWorld ''BTCUSDT'' exTrade 60000 94 (kv_open_trades exStore) exStore))) = []
   \<and> kv_open_trades (snd (snd (closeToFlat exEnv exWorld ''BTCUSDT'' exTrade 60000 94 (kv_open_trades exStore) exStore)))
       = [(''BTCUSDT'', exTrade)]"
proof -
  let ?r = "closeLoop exEnv exWorld ''BTCUSDT'' 94 (closeStep exEnv exWorld ''BTCUSDT'')
          \<lparr>attempts = 0, totalQtyClosed = 0, sumNotionalExit = 0, lastExitPrice = 94\<rparr> exStore"
  have 1: "?r = (fst ?r, fst (snd ?r), snd (snd ?r))" by simp
  have 2: "finalAmt exEnv exWorld ''BTCUSDT'' k = 2" for k
    by (simp add: finalAmt_def exCreds exWorld_def)
  have 3: "finalAmt exEnv exWorld ''BTCUSDT'' (attempts (fst (snd ?r))) \<noteq> 0"
    by (simp add: 2)
  show ?thesis
    using close_to_flat_sticky_failure [OF 1 3, of exTrade 60000 "kv_open_trades exStore"] 2
    by (simp add: exStore_def)
qed

section \<open>The admin guard\<close>

text \<open>
  C10. When the admin secret \<open>ADMIN_KEY\<close> is not configured (absent or empty), the run
  handler, the stop handler and every repair handler answer 403 forbidden, whatever
  the \<open>x-admin-key\<close> header holds, and the store is returned as it was given: the
  answer does not depend on it and nothing is written.
\<close>

theorem admin_fails_closed:
  assumes "\<not> truthy (ADMIN_KEY env)"
  shows "handleVibeRun env req st = (Forbidden_403, st)
       \<and> handleVibeStop env req st = (Forbidden_403, st)
       \<and> handleRepair env req repair st = (Forbidden_403, st)"
  using assms by (simp add: handleVibeRun_def handleVibeStop_def handleRepair_def forbidden_def Let_def)

theorem admin_fails_closed_witness:
  "\<not> truthy (ADMIN_KEY exEnv)
   \<and> handleVibeRun exEnv \<lparr>x_admin_key = Some ''guess'', body = exBody\<rparr> exStore = (Forbidden_403, exStore)
   \<and> handleVibeStop exEnv \<lparr>x_admin_key = None, body = exBody\<rparr> exStore = (Forbidden_403, exStore)
   \<and> handleRepair exEnv \<lparr>x_admin_key = Some [], body = exBody\<rparr> (\<lambda>s. ((), s\<lparr>kv_equity := []\<rparr>)) exStore
       = (Forbidden_403, exStore)"
proof -
  have 1: "\<not> truthy (ADMIN_KEY exEnv)" by (simp add: exEnv_def truthy_def)
  show ?thesis
    using admin_fails_closed [OF 1, of "\<lparr>x_admin_key = Some ''guess'', body = exBody\<rparr>" exStore
         "\<lambda>s. ((), s\<lparr>kv_equity := []\<rparr>)"]
      admin_fails_closed [OF 1, of "\<lparr>x_admin_key = None, body = exBody\<rparr>" exStore
         "\<lambda>s. ((), s\<lparr>kv_equity := []\<rparr>)"]
      admin_fails_closed [OF 1, of "\<lparr>x_admin_key = Some [], body = exBody\<rparr>" exStore
         "\<lambda>s. ((), s\<lparr>kv_equity := []\<rparr>)"] 1
    by simp
qed

section \<open>Status narrator\<close>







section \<open>What the phases of a tick leave unchanged\<close>

lemma closeToFlat_frame:
  assumes "closeToFlat env w symb t now p om st = (b, om', st')"
  shows "kv_equity st' = kv_equity st" and "kv_equity_day st' = kv_equity_day st"
    and "filter isOpenOrder (fx st') = filter isOpenOrder (fx st)"
    and "(om' = om \<and> kv_open_trades st' = kv_open_trades st)
         \<or> (om' = AList.delete symb om \<and> kv_open_trades st' = om')"
proof -
  obtain b1 acc st1 where loop: "closeLoop env w symb p (closeStep env w symb)
       \<lparr>attempts = 0, totalQtyClosed = 0, sumNotionalExit = 0, lastExitPrice = p\<rparr> st = (b1, acc, st1)"
    by (metis prod_cases3)
  from assms loop closeLoop_frame [OF loop]
  show "kv_equity st' = kv_equity st" and "kv_equity_day st' = kv_equity_day st"
    and "filter isOpenOrder (fx st') = filter isOpenOrder (fx st)"
    and "(om' = om \<and> kv_open_trades st' = kv_open_trades st)
         \<or> (om' = AList.delete symb om \<and> kv_open_trades st' = om')"
    by (auto simp: closeToFlat_def Let_def split: if_splits bool.splits)
qed

lemma enforceSym_frame:
  assumes "enforceSym env cfg w symb om st = (b, om', st')"
  shows "kv_equity st' = kv_equity st" and "kv_equity_day st' = kv_equity_day st"
    and "filter isOpenOrder (fx st') = filter isOpenOrder (fx st)"
    and "(om' = om \<and> kv_open_trades st' = kv_open_trades st)
         \<or> (om' = AList.delete symb om \<and> kv_open_trades st' = om')"
  using assms closeToFlat_frame
  by (auto simp: enforceSym_def Let_def split: option.splits reply.splits if_splits)

lemma enforceLoop_frame:
  "enforceLoop env cfg w syms om st = (b, om', st') \<Longrightarrow>
     kv_equity st' = kv_equity st \<and> kv_equity_day st' = kv_equity_day st
     \<and> filter isOpenOrder (fx st') = filter isOpenOrder (fx st)"
proof (induction syms arbitrary: om st)
  case Nil
  then show ?case by simp
next
  case (Cons symb syms)
  obtain b1 om1 st1 where one: "enforceSym env cfg w symb om st = (b1, om1, st1)"
    by (metis prod_cases3)
  note fr = enforceSym_frame(1,2,3) [OF one]
  show ?case
  proof (cases b1)
    case True
    with Cons.prems one fr show ?thesis by simp
  next
    case False
    with Cons.prems one have "enforceLoop env cfg w syms om1 st1 = (b, om', st')" by simp
    from Cons.IH [OF this] fr show ?thesis by simp
  qed
qed

lemma enforceLoop_distinct:
  "enforceLoop env cfg w syms om st = (b, om', st') \<Longrightarrow>
     distinct (map fst om) \<Longrightarrow> distinct (map fst (kv_open_trades st)) \<Longrightarrow>
     distinct (map fst om') \<and> distinct (map fst (kv_open_trades st'))"
proof (induction syms arbitrary: om st)
  case Nil
  then show ?case by simp
next
  case (Cons symb syms)
  obtain b1 om1 st1 where one: "enforceSym env cfg w symb om st = (b1, om1, st1)"
    by (metis prod_cases3)
  have d1: "distinct (map fst om1) \<and> distinct (map fst (kv_open_trades st1))"
    using enforceSym_frame(4) [OF one] Cons.prems(2,3) by (auto simp: distinct_delete)
  show ?case
  proof (cases b1)
    case True
    with Cons.prems one d1 show ?thesis by simp
  next
    case False
    with Cons.prems one have "enforceLoop env cfg w syms om1 st1 = (b, om', st')" by simp
    from Cons.IH [OF this] d1 show ?thesis by simp
  qed
qed

lemma enforce_frame:
  "kv_equity (enforce env cfg w st) = kv_equity st"
  "kv_equity_day (enforce env cfg w st) = kv_equity_day st"
  "filter isOpenOrder (fx (enforce env cfg w st)) = filter isOpenOrder (fx st)"
  "distinct (map fst (kv_open_trades st)) \<Longrightarrow> distinct (map fst (kv_open_trades (enforce env cfg w st)))"
proof -
  obtain b om' st' where r: "enforceLoop env cfg w (map fst (kv_open_trades st)) (kv_open_trades st) st = (b, om', st')"
    by (metis prod_cases3)
  then have e: "enforce env cfg w st = st'" by (simp add: enforce_def)
  from enforceLoop_frame [OF r] e show "kv_equity (enforce env cfg w st) = kv_equity st"
    "kv_equity_day (enforce env cfg w st) = kv_equity_day st"
    "filter isOpenOrder (fx (enforce env cfg w st)) = filter isOpenOrder (fx st)" by simp_all
  from enforceLoop_distinct [OF r] e
  show "distinct (map fst (kv_open_trades st)) \<Longrightarrow> distinct (map fst (kv_open_trades (enforce env cfg w st)))"
    by simp
qed



lemma narrate_frame:
  "fx (snd (narrate st eq sb)) = fx st \<and> kv_equity (snd (narrate st eq sb)) = kv_equity st
   \<and> kv_equity_day (snd (narrate st eq sb)) = kv_equity_day st
   \<and> kv_open_trades (snd (narrate st eq sb)) = kv_open_trades st
   \<and> kv_trades (snd (narrate st eq sb)) = kv_trades st"
  by (simp add: narrate_def emitStatus_def Let_def)

lemma recordFill_frame:
  "fx (recordFill symb a qty p now meta st) = fx st"
  "kv_equity (recordFill symb a qty p now meta st) = kv_equity st"
  "kv_equity_day (recordFill symb a qty p now meta st) = kv_equity_day st"
  "kv_open_trades (recordFill symb a qty p now meta st)
     = AList.update symb (newPosition symb a qty p now meta) (kv_open_trades st)"
  by (simp_all add: recordFill_def Let_def split: option.splits)



lemma orderStep_flat: "orderStep env w rt A_FLAT symb sz meta st = Inr (rt, st)"
  by (simp add: orderStep_def placeOrder_def)



lemma narrate_out: "fst (narrate st eq sb) \<noteq> Out_decision a s z"
  by (simp add: narrate_def emitStatus_def Let_def)

lemma reportDecision_flat:
  "reportDecision w eq A_FLAT symb sz st
     = Inr (case w_status w of None \<Rightarrow> (None, st)
            | Some sb \<Rightarrow> (Some (fst (narrate st eq sb)), snd (narrate st eq sb)))"
  by (simp add: reportDecision_def split: option.splits)


lemma storeInitialEquity_frame:
  "kv_equity (storeInitialEquity w e st) = kv_equity st"
  "kv_equity_day (storeInitialEquity w e st) = kv_equity_day st"
  "kv_open_trades (storeInitialEquity w e st) = kv_open_trades st"
  "fx (storeInitialEquity w e st) = fx st"
  by (simp_all add: storeInitialEquity_def split: option.splits)

lemma tickCatch_frame:
  "kv_equity (snd (tickCatch w rt err st)) = kv_equity st"
  "kv_equity_day (snd (tickCatch w rt err st)) = kv_equity_day st"
  "kv_open_trades (snd (tickCatch w rt err st)) = kv_open_trades st"
  "fx (snd (tickCatch w rt err st)) = fx st"
  by (simp_all add: tickCatch_def Let_def)

lemma sampleEquity_frame:
  "kv_open_trades (sampleEquity w e st) = kv_open_trades st"
  "fx (sampleEquity w e st) = fx st"
  by (simp_all add: sampleEquity_def Let_def)

lemma vibeTick_running:
  "status (configOf st) = running \<or> ignoreStatus \<Longrightarrow>
     vibeTick env w ignoreStatus st
       = tickEnd w (sn_sampledEquity (accountSnapshot env (w_acct w))) (tickMain env w st)"
  by (auto simp: vibeTick_def tickMain_def Let_def)

lemma tickEnd_fst:
  "fst (tickEnd w e (Inr (meta, out), rt, s)) = Tick_ok meta out"
  "fst (tickEnd w e (Inl err, rt, s))
     = (if fst (tickCatch w rt err s) then Tick_thrown Kv_error else Tick_error err)"
  by (auto simp: tickEnd_def split: prod.splits bool.splits)

lemma tickEnd_snd:
  "snd (tickEnd w e (r, rt, s))
     = sampleEquity w e (case r of Inl err \<Rightarrow> snd (tickCatch w rt err s) | Inr x \<Rightarrow> s)"
  by (auto simp: tickEnd_def split: sum.splits prod.splits bool.splits)

lemma tickEnd_frame:
  "kv_open_trades (snd (tickEnd w e (r, rt, s))) = kv_open_trades s"
  "fx (snd (tickEnd w e (r, rt, s))) = fx s"
  by (auto simp: tickEnd_snd sampleEquity_frame tickCatch_frame split: sum.splits)


lemma tickEnd_handled:
  "\<not> w_fault w F_catch_log \<Longrightarrow> \<not> w_fault w F_catch_runtime \<Longrightarrow>
     fst (tickEnd w e (r, rt, s)) \<noteq> Tick_thrown x"
  by (auto simp: tickEnd_def tickCatch_def Let_def split: sum.splits prod.splits bool.splits)



section \<open>Equity sampling\<close>


lemma exBase: "stripSlashes (trim (orEmpty (ASTER_API_BASE exEnv))) \<noteq> []"
  by (simp add: exEnv_def orEmpty_def trim_def stripSlashes_def isSpace_def)



section \<open>An unusable oracle answer\<close>

lemma selectAction_flat:
  "jfield parsed ''action'' \<notin> {Some (JStr ''LONG''), Some (JStr ''SHORT'')} \<Longrightarrow>
     selectAction parsed = A_FLAT"
  by (auto simp: selectAction_def split: option.splits json.splits)

lemma llmParsed_invalid_json:
  "truthy (QWEN_API_KEY env) \<Longrightarrow> w_oracle w = Http True code (Some data) \<Longrightarrow>
     w_JSON_parse w (llmContent data) = None \<Longrightarrow> llmParsed env cfg w = JObj []"
  by (simp add: llmParsed_def callLLMDecider_def)

lemma llmParsed_throw:
  "callLLMDecider env cfg (w_oracle w) (w_JSON_parse w) = Inl e \<Longrightarrow> llmParsed env cfg w = JObj []"
  by (simp add: llmParsed_def)

lemma callLLMDecider_http_failure:
  "callLLMDecider env cfg FetchThrows p = Inl (if truthy (QWEN_API_KEY env) then Fetch_error else LLM_API_KEY_missing)"
  "callLLMDecider env cfg (Http False code b) p = Inl (if truthy (QWEN_API_KEY env) then Llm_http code else LLM_API_KEY_missing)"
  by (simp_all add: callLLMDecider_def)

lemma mainTry_flat:
  assumes "mainTry env cfg rt w eq av st = (r, rt', st')"
      and "selectAction (llmParsed env cfg w) = A_FLAT"
  shows "fx st' = fx st"
    and "(\<forall>fp. \<not> w_fault w fp) \<Longrightarrow>
           \<exists>meta out. r = Inr (meta, out) \<and> (\<forall>a s z. out \<noteq> Some (Out_decision a s z))"
  using assms
  by (auto simp: mainTry_def Let_def consultOracle_def llmParsed_def logAt_def orderStep_flat
        reportDecision_flat narrate_frame narrate_out
      split: option.splits sum.splits prod.splits if_splits)

text \<open>
  C4 (as the code has it). When the oracle request fails (the fetch throws, the HTTP
  status is not ok, or the adapter throws for any other reason), when its answer is
  not valid JSON, or when the answer has no action LONG or SHORT, the decision of the
  tick is FLAT and the tick submits no order that could open a position. No exception
  leaves the tick unless a store write of its error handler fails, and when no store
  operation fails the tick ends normally without reporting a trade decision. A symbol
  outside the universe does not change the action: it is replaced by the first symbol
  of the universe.
\<close>

theorem oracle_failure_degrades_to_flat:
  assumes run: "status (configOf st) = running \<or> ignoreStatus"
      and bad: "w_oracle w = FetchThrows
              \<or> (\<exists>code b. w_oracle w = Http False code b)
              \<or> (\<exists>e. callLLMDecider env (configOf st) (w_oracle w) (w_JSON_parse w) = Inl e)
              \<or> (\<exists>code data. truthy (QWEN_API_KEY env) \<and> w_oracle w = Http True code (Some data)
                    \<and> w_JSON_parse w (llmContent data) = None)
              \<or> jfield (llmParsed env (configOf st) w) ''action''
                   \<notin> {Some (JStr ''LONG''), Some (JStr ''SHORT'')}"
  shows "selectAction (llmParsed env (configOf st) w) = A_FLAT
       \<and> filter isOpenOrder (fx (snd (vibeTick env w ignoreStatus st))) = filter isOpenOrder (fx st)
       \<and> (\<not> w_fault w F_catch_log \<and> \<not> w_fault w F_catch_runtime \<longrightarrow>
            (\<forall>x. fst (vibeTick env w ignoreStatus st) \<noteq> Tick_thrown x))
       \<and> ((\<forall>fp. \<not> w_fault w fp) \<longrightarrow>
            (\<exists>meta out. fst (vibeTick env w ignoreStatus st) = Tick_ok meta out
                        \<and> (\<forall>a s z. out \<noteq> Some (Out_decision a s z))))
       \<and> (\<forall>t. jfield parsed ''symbol'' = Some (JStr t) \<and> t \<notin> set (universe cfg)
              \<longrightarrow> selectSymbol cfg parsed = (case universe cfg of [] \<Rightarrow> None | u # us \<Rightarrow> Some u))"
proof -
  let ?cfg = "configOf st"
  have flat: "selectAction (llmParsed env ?cfg w) = A_FLAT"
  proof -
    from bad consider
        (a) "w_oracle w = FetchThrows"
      | (b) code b where "w_oracle w = Http False code b"
      | (c) e where "callLLMDecider env ?cfg (w_oracle w) (w_JSON_parse w) = Inl e"
      | (d) code data where "truthy (QWEN_API_KEY env)" "w_oracle w = Http True code (Some data)"
            "w_JSON_parse w (llmContent data) = None"
      | (e) "jfield (llmParsed env ?cfg w) ''action'' \<notin> {Some (JStr ''LONG''), Some (JStr ''SHORT'')}"
      by blast
    then have "llmParsed env ?cfg w = JObj []
          \<or> jfield (llmParsed env ?cfg w) ''action'' \<notin> {Some (JStr ''LONG''), Some (JStr ''SHORT'')}"
    proof cases
      case a
      then show ?thesis by (simp add: llmParsed_def callLLMDecider_http_failure)
    next
      case b
      then show ?thesis by (simp add: llmParsed_def callLLMDecider_http_failure)
    next
      case c
      then show ?thesis by (simp add: llmParsed_throw)
    next
      case d
      then show ?thesis by (simp add: llmParsed_invalid_json)
    next
      case e
      then show ?thesis by simp
    qed
    then show ?thesis
      by (auto simp: selectAction_flat) (simp add: selectAction_def jfield_def)
  qed
  obtain r rt3 st3 where m: "tickMain env w st = (r, rt3, st3)"
    by (metis prod_cases3)
  note v = vibeTick_running [OF run, of env w, unfolded m]
  have "fx st3 = fx (enforce env ?cfg w
            (storeInitialEquity w (sn_equityUsd (accountSnapshot env (w_acct w))) st))"
    using mainTry_flat(1) [OF m [unfolded tickMain_def] flat] .
  then have fx: "filter isOpenOrder (fx (snd (vibeTick env w ignoreStatus st))) = filter isOpenOrder (fx st)"
    by (simp add: v tickEnd_frame enforce_frame storeInitialEquity_frame)
  have ok: "(\<forall>fp. \<not> w_fault w fp) \<longrightarrow>
            (\<exists>meta out. fst (vibeTick env w ignoreStatus st) = Tick_ok meta out
                        \<and> (\<forall>a s z. out \<noteq> Some (Out_decision a s z)))"
  proof
    assume "\<forall>fp. \<not> w_fault w fp"
    from mainTry_flat(2) [OF m [unfolded tickMain_def] flat this] obtain meta out where
      "r = Inr (meta, out)" "\<forall>a s z. out \<noteq> Some (Out_decision a s z)" by blast
    with v show "\<exists>meta out. fst (vibeTick env w ignoreStatus st) = Tick_ok meta out
                        \<and> (\<forall>a s z. out \<noteq> Some (Out_decision a s z))"
      by (simp add: tickEnd_fst)
  qed
  have sy: "\<forall>t. jfield parsed ''symbol'' = Some (JStr t) \<and> t \<notin> set (universe cfg)
              \<longrightarrow> selectSymbol cfg parsed = (case universe cfg of [] \<Rightarrow> None | u # us \<Rightarrow> Some u)"
    by (simp add: selectSymbol_def)
  have handled: "\<not> w_fault w F_catch_log \<and> \<not> w_fault w F_catch_runtime \<longrightarrow>
            (\<forall>x. fst (vibeTick env w ignoreStatus st) \<noteq> Tick_thrown x)"
    by (simp add: v tickEnd_handled)
  from flat fx handled ok sy show ?thesis by blast
qed

lemma exPlan_config: "configOf exStore0 = DEFAULT_VIBE_CONFIG"
  by (simp add: configOf_def exStore0_def exStore_def)

lemma exPlan_parsed: "llmParsed exEnv DEFAULT_VIBE_CONFIG exWorldPlan = exPlan"
  by (simp add: llmParsed_def callLLMDecider_def exEnv_def truthy_def exWorldPlan_def exWorld_def
      exData_def llmContent_def jfield_def jfirst_def jtruthy_def Let_def)

lemma exPlan_snapshot:
  "accountSnapshot exEnv (w_acct exWorldPlan)
     = \<lparr>sn_availableBalance = 800, sn_equityUsd = 1000, sn_sampledEquity = 1000\<rparr>"
  by (simp add: accountSnapshot_def asterFapiGetJson_def exCreds exWorldPlan_def exWorld_def
      exAcct_def num0_def Let_def)

lemma exPlan_mainTry:
  assumes "kv_open_trades s = []" "kv_trades s = []" "fx s = []"
  shows "fx (snd (snd (mainTry exEnv DEFAULT_VIBE_CONFIG emptyRuntime exWorldPlan 1000 800 s)))
           = [PostOrder ''BTCUSDT'' BUY 5 False]"
proof -
  have c: "consultOracle exEnv DEFAULT_VIBE_CONFIG exWorldPlan s
       = Some (exPlan, emptyMeta\<lparr>m_provider := Some ''qwen'', m_model := Some ''qwen2.5-32b-instruct''\<rparr>, s)"
    by (simp add: consultOracle_def callLLMDecider_def exEnv_def truthy_def exWorldPlan_def exWorld_def
      exData_def llmContent_def jfield_def jfirst_def jtruthy_def Let_def DEFAULT_VIBE_CONFIG_def)
  have f: "w_fault exWorldPlan p = False" for p by (simp add: exWorldPlan_def exWorld_def)
  have a: "selectAction exPlan = A_LONG" by (simp add: selectAction_def exPlan_def jfield_def)
  have sy: "selectSymbol DEFAULT_VIBE_CONFIG exPlan = Some ''BTCUSDT''"
    by (simp add: selectSymbol_def exPlan_def jfield_def DEFAULT_VIBE_CONFIG_def)
  have sz: "sizeUsd DEFAULT_VIBE_CONFIG 1000 800 = 500"
    by (simp add: sizeUsd_def targetRisk_def targetFraction_def DEFAULT_VIBE_CONFIG_def)
  have wf: "w_now_order exWorldPlan = 61000" "w_order_ticker exWorldPlan = Reply 100"
    "w_info_open exWorldPlan = Null"
    "w_open_order exWorldPlan = OrderResp True 200 \<lparr>avgPrice = Some 94, price = None\<rparr>"
    by (simp_all add: exWorldPlan_def exWorld_def)
  have sec: "truthy (ASTER_API_SECRET exEnv)" by (simp add: exEnv_def truthy_def)
  have q: "openQty exEnv Null ''BTCUSDT'' 500 100 = 5"
    by (simp add: openQty_def asterFapiGetPublicJson_def exBase stepSizeForSymbol_def quantize_def Let_def)
  have sk: "\<not> shouldSkip emptyRuntime [] t" for t
    by (simp add: shouldSkip_def coolOk_def emptyRuntime_def recentLosses_def)
  have po: "fx (snd (snd (placeOrder exEnv exWorldPlan emptyRuntime A_LONG (Some ''BTCUSDT'') 500 m s')))
       = [PostOrder ''BTCUSDT'' BUY 5 False]" and po2: "fst (placeOrder exEnv exWorldPlan emptyRuntime A_LONG (Some ''BTCUSDT'') 500 m s') = None"
    if "kv_trades s' = []" "fx s' = []" for m s'
    using that
    by (simp_all add: placeOrder_def Let_def sk symStr_def wf sec q asterFapiGetPublicJson_def exBase
        asterFapiSignedPost_def exCreds recordFill_frame)
  let ?m = "withPlanFields exPlan (emptyMeta\<lparr>m_provider := Some ''qwen'', m_model := Some ''qwen2.5-32b-instruct''\<rparr>)"
  define s3 where "s3 = appendLog (appendLog s (Log_vibe_prompt (m_provider ?m) (m_model ?m)))
                          (Log_vibe_llm_response A_LONG (Some ''BTCUSDT''))"
  define s4 where "s4 = appendLog s3 (Log_vibe_decision A_LONG (Some ''BTCUSDT'') 500)
                          \<lparr>kv_events := kv_events (appendLog s3 (Log_vibe_decision A_LONG (Some ''BTCUSDT'') 500))
                             @ [Ev_decision (w_now_decision exWorldPlan) A_LONG (Some ''BTCUSDT'') 500]\<rparr>"
  have s4: "kv_trades s4 = []" "fx s4 = []" using assms by (simp_all add: s4_def s3_def)
  have rd: "reportDecision exWorldPlan 1000 A_LONG (Some ''BTCUSDT'') 500 s3
        = Inr (Some (Out_decision A_LONG (Some ''BTCUSDT'') 500), s4)"
    by (simp add: reportDecision_def logAt_def f s4_def)
  obtain e rt5 s5 where p: "placeOrder exEnv exWorldPlan emptyRuntime A_LONG (Some ''BTCUSDT'') 500 ?m s4 = (e, rt5, s5)"
    by (metis prod_cases3)
  from po [OF s4, of ?m] po2 [OF s4, of ?m] p have e: "e = None" and s5: "fx s5 = [PostOrder ''BTCUSDT'' BUY 5 False]"
    by simp_all
  have os: "orderStep exEnv exWorldPlan emptyRuntime A_LONG (Some ''BTCUSDT'') 500 ?m s4 = Inr (rt5, s5)"
    by (simp add: orderStep_def p e)
  have "snd (snd (mainTry exEnv DEFAULT_VIBE_CONFIG emptyRuntime exWorldPlan 1000 800 s))
      = s5\<lparr>kv_runtime := Some (rt5\<lparr>lastTickAt := Some (w_now_runtime exWorldPlan), lastError := None,
                                        lastProvider := m_provider ?m, lastModel := m_model ?m\<rparr>)\<rparr>"
    by (simp add: mainTry_def c Let_def logAt_def f a sy sz s3_def [symmetric] rd os)
  then show ?thesis by (simp add: s5)
qed

lemma enforce_no_positions: "kv_open_trades s = [] \<Longrightarrow> enforce env cfg w s = s"
  by (simp add: enforce_def)

text \<open>
  The claim that a symbol outside the universe degrades the decision to FLAT with no
  order fails: for the plan LONG on FOOUSDT, which is not in the universe, the decision
  stays LONG and the tick submits a BUY order of 5 on BTCUSDT, the first symbol of the
  universe.
\<close>

theorem oracle_out_of_universe_counterexample:
  "jfield (llmParsed exEnv (configOf exStore0) exWorldPlan) ''symbol'' = Some (JStr ''FOOUSDT'')
   \<and> ''FOOUSDT'' \<notin> set (universe (configOf exStore0))
   \<and> selectAction (llmParsed exEnv (configOf exStore0) exWorldPlan) \<noteq> A_FLAT
   \<and> filter isOpenOrder (fx exStore0) = []
   \<and> filter isOpenOrder (fx (snd (vibeTick exEnv exWorldPlan False exStore0)))
       = [PostOrder ''BTCUSDT'' BUY 5 False]"
proof -
  have run: "status (configOf exStore0) = running \<or> False"
    by (simp add: exPlan_config DEFAULT_VIBE_CONFIG_def)
  let ?s1 = "storeInitialEquity exWorldPlan 1000 exStore0"
  have s1: "kv_open_trades ?s1 = []" "kv_trades ?s1 = []" "fx ?s1 = []"
    by (simp_all add: storeInitialEquity_def exStore0_def exStore_def split: option.splits)
  have rt: "runtimeOf exStore0 = emptyRuntime"
    by (simp add: runtimeOf_def exStore0_def exStore_def)
  have "tickMain exEnv exWorldPlan exStore0
      = mainTry exEnv DEFAULT_VIBE_CONFIG emptyRuntime exWorldPlan 1000 800 ?s1"
    by (simp add: tickMain_def exPlan_config exPlan_snapshot rt enforce_no_positions s1)
  with exPlan_mainTry [OF s1]
  have "fx (snd (snd (tickMain exEnv exWorldPlan exStore0))) = [PostOrder ''BTCUSDT'' BUY 5 False]"
    by simp
  moreover have "fx (snd (vibeTick exEnv exWorldPlan False exStore0))
      = fx (snd (snd (tickMain exEnv exWorldPlan exStore0)))"
    using vibeTick_running [OF run, of exEnv exWorldPlan]
      tickEnd_frame(2) [of exWorldPlan _ "fst (tickMain exEnv exWorldPlan exStore0)"
         "fst (snd (tickMain exEnv exWorldPlan exStore0))" "snd (snd (tickMain exEnv exWorldPlan exStore0))"]
    by simp
  ultimately have 5: "fx (snd (vibeTick exEnv exWorldPlan False exStore0)) = [PostOrder ''BTCUSDT'' BUY 5 False]"
    by simp
  have 1: "jfield (llmParsed exEnv (configOf exStore0) exWorldPlan) ''symbol'' = Some (JStr ''FOOUSDT'')"
    by (simp add: exPlan_config exPlan_parsed exPlan_def jfield_def)
  have 2: "''FOOUSDT'' \<notin> set (universe (configOf exStore0))"
    by (simp add: exPlan_config DEFAULT_VIBE_CONFIG_def)
  have 3: "selectAction (llmParsed exEnv (configOf exStore0) exWorldPlan) \<noteq> A_FLAT"
    by (simp add: exPlan_config exPlan_parsed exPlan_def selectAction_def jfield_def)
  have 4: "filter isOpenOrder (fx exStore0) = []" by (simp add: exStore0_def exStore_def)
  from 1 2 3 4 5 show ?thesis by simp
qed

theorem oracle_failure_degrades_to_flat_witness:
  "w_oracle exWorld = FetchThrows
   \<and> selectAction (llmParsed exEnv (configOf exStore) exWorld) = A_FLAT
   \<and> filter isOpenOrder (fx (snd (vibeTick exEnv exWorld False exStore))) = []
   \<and> (\<forall>x. fst (vibeTick exEnv exWorld False exStore) \<noteq> Tick_thrown x)
   \<and> (\<exists>meta out. fst (vibeTick exEnv exWorld False exStore) = Tick_ok meta out)"
proof -
  have run: "status (configOf exStore) = running \<or> False"
    by (simp add: configOf_def exStore_def DEFAULT_VIBE_CONFIG_def)
  have o: "w_oracle exWorld = FetchThrows" by (simp add: exWorld_def)
  then have bad: "w_oracle exWorld = FetchThrows
              \<or> (\<exists>code b. w_oracle exWorld = Http False code b)
              \<or> (\<exists>e. callLLMDecider exEnv (configOf exStore) (w_oracle exWorld) (w_JSON_parse exWorld) = Inl e)
              \<or> (\<exists>code data. truthy (QWEN_API_KEY exEnv) \<and> w_oracle exWorld = Http True code (Some data)
                    \<and> w_JSON_parse exWorld (llmContent data) = None)
              \<or> jfield (llmParsed exEnv (configOf exStore) exWorld) ''action''
                   \<notin> {Some (JStr ''LONG''), Some (JStr ''SHORT'')}"
    by simp
  have nf: "\<forall>fp. \<not> w_fault exWorld fp" by (simp add: exWorld_def)
  have e: "filter isOpenOrder (fx exStore) = []" by (simp add: exStore_def)
  from oracle_failure_degrades_to_flat [OF run bad, where parsed = JNull and cfg = DEFAULT_VIBE_CONFIG] nf e o
  show ?thesis by auto
qed

section \<open>Replacing a position\<close>




end
